theory Spec2Isabelle
  imports Complex_Main
begin

section \<open>The inventory store (core/repositories/sqlite\_inventory\_repo.py)\<close>

text \<open>
  Each SQLite table is a list of rows, a row being a record of its columns. A statement
  of the source is a function from table to table: \<open>UPDATE ... WHERE\<close> maps over the
  rows, \<open>DELETE ... WHERE\<close> filters them, \<open>INSERT\<close> appends. The column
  \<open>obtained_at\<close> (a wall-clock time) is left out of the rows.
\<close>

record fish_inv_row =
  ufi_user_id :: string
  ufi_fish_id :: int
  ufi_quantity :: int

record bait_inv_row =
  ubi_user_id :: string
  ubi_bait_id :: int
  ubi_quantity :: int

record user_rod =
  rod_instance_id :: int
  rod_user_id :: string
  rod_id :: int
  rod_is_equipped :: bool
  rod_current_durability :: "int option"
  rod_refine_level :: int

record user_accessory =
  accessory_instance_id :: int
  acc_user_id :: string
  accessory_id :: int
  acc_is_equipped :: bool
  acc_refine_level :: int

record fish_template =
  fish_name :: string
  fish_base_value :: int

text \<open>
  The operations of the repository that the database may refuse (a constraint violation,
  a driver error). The source catches these as \<open>Exception\<close> or \<open>sqlite3.Error\<close>;
  which of them fail is a property of the environment, the field \<open>refuses\<close> below.
\<close>

datatype db_op =
    OpBatchInsertRods string "(int \<times> int option) list"
  | OpAddRod string int
  | OpBatchInsertAccessories string "int list"
  | OpAddAccessory string int
  | OpBatchUpdateBaits string "(int \<times> int) list"
  | OpUpdateBait string int int
  | OpSellFishKeepOne string
  | OpSetEquipment string

datatype store_error = StoreError db_op

text \<open>
  \<open>fish\<close> is the template table joined in the value queries, keyed by \<open>fish_id\<close>.
  \<open>last_rod_rowid\<close> and \<open>last_accessory_rowid\<close> are the row ids SQLite handed out
  last: \<open>cursor.lastrowid\<close> after an insert is the next one.
\<close>

record database =
  user_fish_inventory :: "fish_inv_row list"
  user_bait_inventory :: "bait_inv_row list"
  user_rods :: "user_rod list"
  user_accessories :: "user_accessory list"
  fish :: "int \<rightharpoonup> fish_template"
  last_rod_rowid :: int
  last_accessory_rowid :: int
  refuses :: "db_op \<Rightarrow> bool"

subsection \<open>Stackable goods: bait\<close>

definition bait_key :: "string \<Rightarrow> int \<Rightarrow> bait_inv_row \<Rightarrow> bool" where
  "bait_key uid bid r = (ubi_user_id r = uid \<and> ubi_bait_id r = bid)"

text \<open>
  \<open>INSERT ... VALUES (?, ?, MAX(0, ?)) ON CONFLICT(user_id, bait_id) DO UPDATE SET
  quantity = MAX(0, quantity + ?)\<close>.
\<close>

definition upsert_bait :: "string \<Rightarrow> int \<Rightarrow> int \<Rightarrow> bait_inv_row list \<Rightarrow> bait_inv_row list" where
  "upsert_bait uid bid delta tbl =
     (case find (bait_key uid bid) tbl of
        Some _ \<Rightarrow>
          map (\<lambda>r. if bait_key uid bid r
                    then r\<lparr>ubi_quantity := max 0 (ubi_quantity r + delta)\<rparr> else r) tbl
      | None \<Rightarrow>
          tbl @ [\<lparr>ubi_user_id = uid, ubi_bait_id = bid, ubi_quantity = max 0 delta\<rparr>])"

text \<open>\<open>DELETE FROM user_bait_inventory WHERE user_id = ? AND quantity <= 0\<close>.\<close>

definition delete_empty_baits :: "string \<Rightarrow> bait_inv_row list \<Rightarrow> bait_inv_row list" where
  "delete_empty_baits uid tbl =
     filter (\<lambda>r. \<not> (ubi_user_id r = uid \<and> ubi_quantity r \<le> 0)) tbl"

text \<open>
  \<open>update_bait_quantity\<close> has no handler of its own: an error leaves the connection's
  context manager, which rolls back, and reaches the caller.
\<close>

definition update_bait_quantity ::
  "database \<Rightarrow> string \<Rightarrow> int \<Rightarrow> int \<Rightarrow> store_error + database" where
  "update_bait_quantity db uid bid delta =
     (if refuses db (OpUpdateBait uid bid delta) then Inl (StoreError (OpUpdateBait uid bid delta))
      else Inr (db\<lparr>user_bait_inventory :=
                  delete_empty_baits uid (upsert_bait uid bid delta (user_bait_inventory db))\<rparr>))"

text \<open>
  The loop body of \<open>batch_update_bait_quantities\<close>: a zero delta is skipped; an existing
  row gets \<open>max(0, quantity + delta)\<close>; a missing row is inserted when the delta is
  positive, and nothing happens otherwise.
\<close>

definition batch_bait_step :: "string \<Rightarrow> int \<times> int \<Rightarrow> bait_inv_row list \<Rightarrow> bait_inv_row list" where
  "batch_bait_step uid upd tbl =
     (case upd of (bid, delta) \<Rightarrow>
        if delta = 0 then tbl
        else (case find (bait_key uid bid) tbl of
                Some res \<Rightarrow>
                  map (\<lambda>r. if bait_key uid bid r
                            then r\<lparr>ubi_quantity := max 0 (ubi_quantity res + delta)\<rparr> else r) tbl
              | None \<Rightarrow>
                  if delta > 0
                  then tbl @ [\<lparr>ubi_user_id = uid, ubi_bait_id = bid, ubi_quantity = delta\<rparr>]
                  else tbl))"

fun batch_bait_loop :: "string \<Rightarrow> (int \<times> int) list \<Rightarrow> bait_inv_row list \<Rightarrow> bait_inv_row list" where
  "batch_bait_loop uid [] tbl = tbl"
| "batch_bait_loop uid (upd # upds) tbl = batch_bait_loop uid upds (batch_bait_step uid upd tbl)"

text \<open>
  \<open>batch_update_bait_quantities\<close>: an empty list returns at once; otherwise the loop
  runs in one transaction, and an error rolls it back and is raised again.
\<close>

definition batch_update_bait_quantities ::
  "database \<Rightarrow> string \<Rightarrow> (int \<times> int) list \<Rightarrow> store_error + database" where
  "batch_update_bait_quantities db uid bait_updates =
     (if bait_updates = [] then Inr db
      else if refuses db (OpBatchUpdateBaits uid bait_updates)
           then Inl (StoreError (OpBatchUpdateBaits uid bait_updates))
      else Inr (db\<lparr>user_bait_inventory :=
                  batch_bait_loop uid bait_updates (user_bait_inventory db)\<rparr>))"

subsection \<open>Equipment instances\<close>

text \<open>
  \<open>add_rod_instance\<close>: one insert, unequipped, refine level 1 by default; returns the
  new instance.
\<close>

definition new_rod :: "int \<Rightarrow> string \<Rightarrow> int \<Rightarrow> int option \<Rightarrow> int \<Rightarrow> user_rod" where
  "new_rod iid uid rid durability refine_level =
     \<lparr>rod_instance_id = iid, rod_user_id = uid, rod_id = rid, rod_is_equipped = False,
      rod_current_durability = durability, rod_refine_level = refine_level\<rparr>"

definition add_rod_instance ::
  "database \<Rightarrow> string \<Rightarrow> int \<Rightarrow> int option \<Rightarrow> int \<Rightarrow> store_error + (user_rod \<times> database)" where
  "add_rod_instance db uid rid durability refine_level =
     (if refuses db (OpAddRod uid rid) then Inl (StoreError (OpAddRod uid rid))
      else (let iid = last_rod_rowid db + 1;
                inst = new_rod iid uid rid durability refine_level
            in Inr (inst, db\<lparr>user_rods := user_rods db @ [inst], last_rod_rowid := iid\<rparr>)))"

text \<open>
  \<open>_batch_insert_rod_instances\<close>: one multi-row insert in a transaction. The ids returned
  are \<open>range(last_id - n + 1, last_id + 1)\<close>. An error rolls back and is raised again.
\<close>

fun number_rods :: "string \<Rightarrow> int \<Rightarrow> (int \<times> int option) list \<Rightarrow> user_rod list" where
  "number_rods uid i [] = []"
| "number_rods uid i ((rid, durability) # rest) =
     new_rod (i + 1) uid rid durability 1 # number_rods uid (i + 1) rest"

definition batch_insert_rod_instances ::
  "database \<Rightarrow> string \<Rightarrow> (int \<times> int option) list \<Rightarrow> store_error + (int list \<times> database)" where
  "batch_insert_rod_instances db uid rod_data_list =
     (if refuses db (OpBatchInsertRods uid rod_data_list)
      then Inl (StoreError (OpBatchInsertRods uid rod_data_list))
      else (let n = int (length rod_data_list);
                last_id = last_rod_rowid db + n;
                first_id = last_id - n + 1
            in Inr ([first_id ..  last_id],
                    db\<lparr>user_rods := user_rods db @ number_rods uid (last_rod_rowid db) rod_data_list,
                       last_rod_rowid := last_id\<rparr>)))"

text \<open>
  \<open>_fallback_add_rod_instances\<close>: one \<open>add_rod_instance\<close> per element; a failing one is
  logged and skipped. What the source appends to \<open>inserted_ids\<close> is the value
  \<open>add_rod_instance\<close> returns, the instance itself; the model keeps its id.
\<close>

fun fallback_add_rod_instances ::
  "database \<Rightarrow> string \<Rightarrow> (int \<times> int option) list \<Rightarrow> int list \<times> database" where
  "fallback_add_rod_instances db uid [] = ([], db)"
| "fallback_add_rod_instances db uid ((rid, durability) # rest) =
     (case add_rod_instance db uid rid durability 1 of
        Inl _ \<Rightarrow> fallback_add_rod_instances db uid rest
      | Inr (inst, db') \<Rightarrow>
          (case fallback_add_rod_instances db' uid rest of
             (ids, db'') \<Rightarrow> (rod_instance_id inst # ids, db'')))"

definition batch_add_rod_instances ::
  "database \<Rightarrow> string \<Rightarrow> (int \<times> int option) list \<Rightarrow> int list \<times> database" where
  "batch_add_rod_instances db uid rod_data_list =
     (if rod_data_list = [] then ([], db)
      else (case batch_insert_rod_instances db uid rod_data_list of
              Inr res \<Rightarrow> res
            | Inl _ \<Rightarrow> fallback_add_rod_instances db uid rod_data_list))"

definition new_accessory :: "int \<Rightarrow> string \<Rightarrow> int \<Rightarrow> int \<Rightarrow> user_accessory" where
  "new_accessory iid uid aid refine_level =
     \<lparr>accessory_instance_id = iid, acc_user_id = uid, accessory_id = aid,
      acc_is_equipped = False, acc_refine_level = refine_level\<rparr>"

definition add_accessory_instance ::
  "database \<Rightarrow> string \<Rightarrow> int \<Rightarrow> int \<Rightarrow> store_error + (user_accessory \<times> database)" where
  "add_accessory_instance db uid aid refine_level =
     (if refuses db (OpAddAccessory uid aid) then Inl (StoreError (OpAddAccessory uid aid))
      else (let iid = last_accessory_rowid db + 1;
                inst = new_accessory iid uid aid refine_level
            in Inr (inst, db\<lparr>user_accessories := user_accessories db @ [inst],
                              last_accessory_rowid := iid\<rparr>)))"

fun number_accessories :: "string \<Rightarrow> int \<Rightarrow> int list \<Rightarrow> user_accessory list" where
  "number_accessories uid i [] = []"
| "number_accessories uid i (aid # rest) =
     new_accessory (i + 1) uid aid 1 # number_accessories uid (i + 1) rest"

definition batch_insert_accessory_instances ::
  "database \<Rightarrow> string \<Rightarrow> int list \<Rightarrow> store_error + (int list \<times> database)" where
  "batch_insert_accessory_instances db uid accessory_ids =
     (if refuses db (OpBatchInsertAccessories uid accessory_ids)
      then Inl (StoreError (OpBatchInsertAccessories uid accessory_ids))
      else (let n = int (length accessory_ids);
                last_id = last_accessory_rowid db + n;
                first_id = last_id - n + 1
            in Inr ([first_id ..  last_id],
                    db\<lparr>user_accessories :=
                         user_accessories db @ number_accessories uid (last_accessory_rowid db) accessory_ids,
                       last_accessory_rowid := last_id\<rparr>)))"

fun fallback_add_accessory_instances ::
  "database \<Rightarrow> string \<Rightarrow> int list \<Rightarrow> int list \<times> database" where
  "fallback_add_accessory_instances db uid [] = ([], db)"
| "fallback_add_accessory_instances db uid (aid # rest) =
     (case add_accessory_instance db uid aid 1 of
        Inl _ \<Rightarrow> fallback_add_accessory_instances db uid rest
      | Inr (inst, db') \<Rightarrow>
          (case fallback_add_accessory_instances db' uid rest of
             (ids, db'') \<Rightarrow> (accessory_instance_id inst # ids, db'')))"

definition batch_add_accessory_instances ::
  "database \<Rightarrow> string \<Rightarrow> int list \<Rightarrow> int list \<times> database" where
  "batch_add_accessory_instances db uid accessory_ids =
     (if accessory_ids = [] then ([], db)
      else (case batch_insert_accessory_instances db uid accessory_ids of
              Inr res \<Rightarrow> res
            | Inl _ \<Rightarrow> fallback_add_accessory_instances db uid accessory_ids))"

text \<open>
  \<open>set_equipment_status\<close>: both reset statements run for the user whatever the
  arguments; each of the two instance ids is optional.
\<close>

definition set_equipment_status ::
  "database \<Rightarrow> string \<Rightarrow> int option \<Rightarrow> int option \<Rightarrow> store_error + database" where
  "set_equipment_status db uid rod_iid acc_iid =
     (if refuses db (OpSetEquipment uid) then Inl (StoreError (OpSetEquipment uid))
      else (let rods0 = map (\<lambda>r. if rod_user_id r = uid then r\<lparr>rod_is_equipped := False\<rparr> else r)
                          (user_rods db);
                accs0 = map (\<lambda>a. if acc_user_id a = uid then a\<lparr>acc_is_equipped := False\<rparr> else a)
                          (user_accessories db);
                rods1 = (case rod_iid of
                           None \<Rightarrow> rods0
                         | Some i \<Rightarrow>
                             map (\<lambda>r. if rod_instance_id r = i \<and> rod_user_id r = uid
                                       then r\<lparr>rod_is_equipped := True\<rparr> else r) rods0);
                accs1 = (case acc_iid of
                           None \<Rightarrow> accs0
                         | Some i \<Rightarrow>
                             map (\<lambda>a. if accessory_instance_id a = i \<and> acc_user_id a = uid
                                       then a\<lparr>acc_is_equipped := True\<rparr> else a) accs0)
            in Inr (db\<lparr>user_rods := rods1, user_accessories := accs1\<rparr>)))"

definition get_user_equipped_accessory :: "database \<Rightarrow> string \<Rightarrow> user_accessory option" where
  "get_user_equipped_accessory db uid =
     find (\<lambda>a. acc_user_id a = uid \<and> acc_is_equipped a) (user_accessories db)"

definition get_user_equipped_rod :: "database \<Rightarrow> string \<Rightarrow> user_rod option" where
  "get_user_equipped_rod db uid =
     find (\<lambda>r. rod_user_id r = uid \<and> rod_is_equipped r) (user_rods db)"

subsection \<open>Selling all fish but one\<close>

text \<open>
  \<open>sell_fish_keep_one\<close>: the \<open>SELECT\<close> joins the inventory with the \<open>fish\<close> table, so a
  row without a template is not among \<open>items_to_sell\<close>; the \<open>UPDATE\<close> has no join. With
  nothing to sell the transaction is rolled back and 0 returned. An \<open>sqlite3.Error\<close>
  rolls back and is raised again.
\<close>

definition items_to_sell :: "database \<Rightarrow> string \<Rightarrow> (fish_inv_row \<times> fish_template) list" where
  "items_to_sell db uid =
     List.map_filter
       (\<lambda>r. if ufi_user_id r = uid \<and> ufi_quantity r > 1
             then (case fish db (ufi_fish_id r) of None \<Rightarrow> None | Some f \<Rightarrow> Some (r, f))
             else None)
       (user_fish_inventory db)"

fun sold_value_loop :: "(fish_inv_row \<times> fish_template) list \<Rightarrow> int \<Rightarrow> int" where
  "sold_value_loop [] sold_value = sold_value"
| "sold_value_loop ((r, f) # items) sold_value =
     sold_value_loop items (sold_value + (ufi_quantity r - 1) * fish_base_value f)"

definition sell_fish_keep_one :: "database \<Rightarrow> string \<Rightarrow> store_error + (int \<times> database)" where
  "sell_fish_keep_one db uid =
     (if refuses db (OpSellFishKeepOne uid) then Inl (StoreError (OpSellFishKeepOne uid))
      else if items_to_sell db uid = [] then Inr (0, db)
      else Inr (sold_value_loop (items_to_sell db uid) 0,
                db\<lparr>user_fish_inventory :=
                     map (\<lambda>r. if ufi_user_id r = uid \<and> ufi_quantity r > 1
                               then r\<lparr>ufi_quantity := 1\<rparr> else r)
                         (user_fish_inventory db)\<rparr>))"

section \<open>The gacha service (core/services/gacha\_service.py)\<close>

subsection \<open>Domain models and collaborators\<close>

text \<open>
  The domain models and the other repositories are imported by the service, and only
  their uses are in the sources at hand. The records below have the attributes the
  service reads and writes. A display name is either a template's name or the text the
  service formats from a number of coins.
\<close>

record user =
  user_id :: string
  nickname :: string
  coins :: int

record gacha_pool_item =
  gacha_pool_id :: int
  item_type :: string
  item_id :: int
  quantity :: int
  weight :: int

record gacha_pool =
  pool_id :: int
  cost_coins :: int
  items :: "gacha_pool_item list"

record rod_template =
  rt_name :: string
  rt_rarity :: int
  rt_durability :: "int option"

record accessory_template =
  at_name :: string
  at_rarity :: int

record bait_template =
  bt_name :: string
  bt_rarity :: int

record title_template =
  tt_name :: string

datatype item_name = Name string | CoinsName int

record gacha_record =
  rec_record_id :: int
  rec_user_id :: string
  rec_gacha_pool_id :: int
  rec_item_type :: string
  rec_item_id :: int
  rec_item_name :: item_name
  rec_quantity :: int
  rec_rarity :: int

text \<open>
  The calls that leave the service, in the order they are made: a call of the random
  source with the entry it selected, and the writes to the user, inventory, achievement
  and log repositories.
\<close>

datatype event =
    EvDraw "gacha_pool_item option"
  | EvUserUpdate user
  | EvAddRods "(int \<times> int option) list"
  | EvAddAccessories "int list"
  | EvUpdateBaits "(int \<times> int) list"
  | EvGrantTitle string int
  | EvAddGachaRecord gacha_record

text \<open>
  The world the plugin runs in: the inventory database, the tables of the other
  repositories, the random source (\<open>random_source i\<close> is the number in \<open>[0, 1)\<close> that
  the \<open>i\<close>-th call of \<open>random.random()\<close> returns), the calls made so far with the
  latest one first, and the two attributes of the plugin that guard the ten-thousand
  draw. \<open>history\<close> lists the calls in the order they were made. The pool and template
  repositories are only read, by id (\<open>get_pool_by_id\<close>, \<open>get_rod_by_id\<close> and the like
  return the object or \<open>None\<close>): they are the maps \<open>pools\<close> and \<open>..._templates\<close>.
  \<open>repo_has_batch_update\<close> is the outcome of the service's \<open>hasattr\<close> test for
  \<open>batch_update_bait_quantities\<close>; it is true of the repository of this plugin.
\<close>

record world =
  inv_db :: database
  users :: "user list"
  pools :: "int \<rightharpoonup> gacha_pool"
  rod_templates :: "int \<rightharpoonup> rod_template"
  accessory_templates :: "int \<rightharpoonup> accessory_template"
  bait_templates :: "int \<rightharpoonup> bait_template"
  title_templates :: "int \<rightharpoonup> title_template"
  user_titles :: "(string \<times> int) list"
  gacha_records :: "gacha_record list"
  random_source :: "nat \<Rightarrow> real"
  random_calls :: nat
  repo_has_batch_update :: bool
  trace :: "event list"
  ten_thousand_gacha_lock :: bool
  ten_thousand_gacha_user :: "string option"

definition history :: "world \<Rightarrow> event list" where
  "history w = rev (trace w)"

text \<open>
  Modelled from the spec: the user repository (\<open>getById(userId) -> {balance, ...}\<close>,
  \<open>update(user)\<close>), whose implementation is not among the sources. \<open>get_by_id\<close> returns
  a copy of the stored row and \<open>update\<close> writes the given object over the row of its id.
\<close>

definition get_by_id :: "world \<Rightarrow> string \<Rightarrow> user option" where
  "get_by_id w uid = find (\<lambda>u. user_id u = uid) (users w)"

definition user_repo_update :: "world \<Rightarrow> user \<Rightarrow> world" where
  "user_repo_update w u =
     w\<lparr>users := map (\<lambda>x. if user_id x = user_id u then u else x) (users w),
       trace := EvUserUpdate u # trace w\<rparr>"

text \<open>
  Modelled from the spec: \<open>User.can_afford\<close>, which the domain model defines
  (\<open>user.balance \<ge> totalCost\<close>).
\<close>

definition can_afford :: "user \<Rightarrow> int \<Rightarrow> bool" where
  "can_afford u cost = (coins u \<ge> cost)"

text \<open>
  Modelled from the spec: the achievement repository's \<open>grant_title_to_user\<close>
  (\<open>grantTitle(userId, titleId)\<close>) and the log repository's \<open>add_gacha_record\<close>
  (\<open>appendGachaRecord(record)\<close>, append-only).
\<close>

definition grant_title_to_user :: "world \<Rightarrow> string \<Rightarrow> int \<Rightarrow> world" where
  "grant_title_to_user w uid tid =
     w\<lparr>user_titles := (if (uid, tid) \<in> set (user_titles w) then user_titles w
                        else user_titles w @ [(uid, tid)]),
       trace := EvGrantTitle uid tid # trace w\<rparr>"

definition add_gacha_record :: "world \<Rightarrow> gacha_record \<Rightarrow> world" where
  "add_gacha_record w r =
     w\<lparr>gacha_records := gacha_records w @ [r], trace := EvAddGachaRecord r # trace w\<rparr>"

subsection \<open>One weighted draw\<close>

text \<open>
  \<open>random.uniform(a, b)\<close> is \<open>a + (b - a) * random()\<close>. The weights are integers and the
  comparison of \<open>rand_val\<close> with the running sum is exact; the product is taken over the
  reals.
\<close>

definition uniform :: "real \<Rightarrow> real \<Rightarrow> real \<Rightarrow> real" where
  "uniform a b u = a + (b - a) * u"

definition total_weight :: "gacha_pool \<Rightarrow> int" where
  "total_weight pool = sum_list (map weight (items pool))"

fun draw_walk :: "gacha_pool_item list \<Rightarrow> real \<Rightarrow> int \<Rightarrow> gacha_pool_item option" where
  "draw_walk [] rand_val current_weight = None"
| "draw_walk (item # rest) rand_val current_weight =
     (if rand_val \<le> real_of_int (current_weight + weight item) then Some item
      else draw_walk rest rand_val (current_weight + weight item))"

definition perform_single_weighted_draw :: "gacha_pool \<Rightarrow> real \<Rightarrow> gacha_pool_item option" where
  "perform_single_weighted_draw pool u =
     draw_walk (items pool) (uniform 0 (real_of_int (total_weight pool)) u) 0"

subsection \<open>Granting the rewards of a batch\<close>

datatype reward =
    RodReward int string int
  | AccessoryReward int string int
  | BaitReward int string int int
  | CoinsReward int
  | TitleReward int string

datatype exn = StoreExn store_error | AttributeError | KeyError

record aggregated_rewards =
  agg_rods :: "gacha_pool_item list"
  agg_accessories :: "gacha_pool_item list"
  agg_baits :: "(int \<times> int) list"
  agg_coins :: int
  agg_titles :: "int list"

text \<open>
  \<open>baits\<close> is a \<open>defaultdict(int)\<close>, here the list of its pairs in insertion order, which
  is the order \<open>items()\<close> iterates in. \<open>titles\<close> is a \<open>set\<close>; Python fixes no iteration
  order for it, and the list keeps the order of first insertion.
\<close>

fun bait_add :: "int \<Rightarrow> int \<Rightarrow> (int \<times> int) list \<Rightarrow> (int \<times> int) list" where
  "bait_add k q [] = [(k, 0 + q)]"
| "bait_add k q ((k', v) # rest) =
     (if k' = k then (k', v + q) # rest else (k', v) # bait_add k q rest)"

definition title_add :: "int \<Rightarrow> int list \<Rightarrow> int list" where
  "title_add t ts = (if t \<in> set ts then ts else ts @ [t])"

definition aggregate_step :: "aggregated_rewards \<Rightarrow> gacha_pool_item \<Rightarrow> aggregated_rewards" where
  "aggregate_step agg item =
     (if item_type item = ''rod'' then agg\<lparr>agg_rods := agg_rods agg @ [item]\<rparr>
      else if item_type item = ''accessory''
        then agg\<lparr>agg_accessories := agg_accessories agg @ [item]\<rparr>
      else if item_type item = ''bait''
        then agg\<lparr>agg_baits := bait_add (item_id item) (quantity item) (agg_baits agg)\<rparr>
      else if item_type item = ''coins'' then agg\<lparr>agg_coins := agg_coins agg + quantity item\<rparr>
      else if item_type item = ''titles''
        then agg\<lparr>agg_titles := title_add (item_id item) (agg_titles agg)\<rparr>
      else agg)"

definition aggregate :: "gacha_pool_item list \<Rightarrow> aggregated_rewards" where
  "aggregate draw_results =
     foldl aggregate_step
       \<lparr>agg_rods = [], agg_accessories = [], agg_baits = [], agg_coins = 0, agg_titles = []\<rparr>
       draw_results"

text \<open>
  \<open>_create_log_record\<close> reads four attributes of the item it is given, a pool entry or
  the throwaway object built for an aggregated group; \<open>virtual_item\<close> is that object.
\<close>

definition create_log_record ::
  "gacha_record list \<Rightarrow> string \<Rightarrow> gacha_pool_item \<Rightarrow> item_name \<Rightarrow> int \<Rightarrow> gacha_record list" where
  "create_log_record log_records uid item name rarity =
     log_records @
       [\<lparr>rec_record_id = 0, rec_user_id = uid, rec_gacha_pool_id = gacha_pool_id item,
         rec_item_type = item_type item, rec_item_id = item_id item, rec_item_name = name,
         rec_quantity = quantity item, rec_rarity = rarity\<rparr>]"

definition virtual_item :: "string \<Rightarrow> int \<Rightarrow> int \<Rightarrow> gacha_pool_item" where
  "virtual_item ty iid q =
     \<lparr>gacha_pool_id = 0, item_type = ty, item_id = iid, quantity = q, weight = 0\<rparr>"

text \<open>
  The local state of \<open>_grant_rewards_batch\<close>: the rewards to return and the log records
  to write at the end.
\<close>

type_synonym grant_acc = "reward list \<times> gacha_record list"

fun rod_results :: "world \<Rightarrow> string \<Rightarrow> gacha_pool_item list \<Rightarrow> grant_acc \<Rightarrow> grant_acc" where
  "rod_results w uid [] acc = acc"
| "rod_results w uid (rod_item # rest) (granted, logs) =
     (case rod_templates w (item_id rod_item) of
        None \<Rightarrow> rod_results w uid rest (granted, logs)
      | Some t \<Rightarrow>
          rod_results w uid rest
            (granted @ [RodReward (item_id rod_item) (rt_name t) (rt_rarity t)],
             create_log_record logs uid rod_item (Name (rt_name t)) (rt_rarity t)))"

definition grant_rods :: "world \<Rightarrow> string \<Rightarrow> gacha_pool_item list \<Rightarrow> grant_acc \<Rightarrow> grant_acc \<times> world" where
  "grant_rods w uid rods acc =
     (if rods = [] then (acc, w)
      else (let rod_data_list =
                  List.map_filter
                    (\<lambda>it. case rod_templates w (item_id it) of
                            None \<Rightarrow> None
                          | Some t \<Rightarrow> Some (item_id it, rt_durability t)) rods
            in if rod_data_list = [] then (acc, w)
               else (case batch_add_rod_instances (inv_db w) uid rod_data_list of
                       (inserted_ids, db') \<Rightarrow>
                         (rod_results w uid rods acc,
                          w\<lparr>inv_db := db', trace := EvAddRods rod_data_list # trace w\<rparr>))))"

fun accessory_results :: "world \<Rightarrow> string \<Rightarrow> gacha_pool_item list \<Rightarrow> grant_acc \<Rightarrow> grant_acc" where
  "accessory_results w uid [] acc = acc"
| "accessory_results w uid (accessory_item # rest) (granted, logs) =
     (case accessory_templates w (item_id accessory_item) of
        None \<Rightarrow> accessory_results w uid rest (granted, logs)
      | Some t \<Rightarrow>
          accessory_results w uid rest
            (granted @ [AccessoryReward (item_id accessory_item) (at_name t) (at_rarity t)],
             create_log_record logs uid accessory_item (Name (at_name t)) (at_rarity t)))"

definition grant_accessories ::
  "world \<Rightarrow> string \<Rightarrow> gacha_pool_item list \<Rightarrow> grant_acc \<Rightarrow> grant_acc \<times> world" where
  "grant_accessories w uid accessories acc =
     (if accessories = [] then (acc, w)
      else (let accessory_ids =
                  List.map_filter
                    (\<lambda>it. case accessory_templates w (item_id it) of
                            None \<Rightarrow> None
                          | Some t \<Rightarrow> Some (item_id it)) accessories
            in if accessory_ids = [] then (acc, w)
               else (case batch_add_accessory_instances (inv_db w) uid accessory_ids of
                       (inserted_ids, db') \<Rightarrow>
                         (accessory_results w uid accessories acc,
                          w\<lparr>inv_db := db', trace := EvAddAccessories accessory_ids # trace w\<rparr>))))"

text \<open>
  The fallback of the bait block, taken when the repository has no
  \<open>batch_update_bait_quantities\<close>: one \<open>update_bait_quantity\<close> per positive total.
\<close>

fun bait_fallback :: "world \<Rightarrow> string \<Rightarrow> (int \<times> int) list \<Rightarrow> exn option \<times> world" where
  "bait_fallback w uid [] = (None, w)"
| "bait_fallback w uid ((bait_id, total_quantity) # rest) =
     (if total_quantity > 0
      then (case update_bait_quantity (inv_db w) uid bait_id total_quantity of
              Inl e \<Rightarrow> (Some (StoreExn e), w)
            | Inr db' \<Rightarrow>
                bait_fallback
                  (w\<lparr>inv_db := db', trace := EvUpdateBaits [(bait_id, total_quantity)] # trace w\<rparr>)
                  uid rest)
      else bait_fallback w uid rest)"

fun bait_results :: "world \<Rightarrow> string \<Rightarrow> (int \<times> int) list \<Rightarrow> grant_acc \<Rightarrow> grant_acc" where
  "bait_results w uid [] acc = acc"
| "bait_results w uid ((bait_id, total_quantity) # rest) (granted, logs) =
     (case bait_templates w bait_id of
        None \<Rightarrow> bait_results w uid rest (granted, logs)
      | Some t \<Rightarrow>
          if total_quantity > 0
          then bait_results w uid rest
                 (granted @ [BaitReward bait_id (bt_name t) (bt_rarity t) total_quantity],
                  create_log_record logs uid (virtual_item ''bait'' bait_id total_quantity)
                    (Name (bt_name t)) (bt_rarity t))
          else bait_results w uid rest (granted, logs))"


text \<open>
  The bait block. An error of the repository is raised out of \<open>_grant_rewards_batch\<close>
  (its handler logs and raises again); what was written before stays written.
\<close>

definition grant_baits ::
  "world \<Rightarrow> string \<Rightarrow> (int \<times> int) list \<Rightarrow> grant_acc \<Rightarrow> (exn + grant_acc) \<times> world" where
  "grant_baits w uid baits acc =
     (if baits = [] then (Inr acc, w)
      else if repo_has_batch_update w
      then (case batch_update_bait_quantities (inv_db w) uid baits of
              Inl e \<Rightarrow> (Inl (StoreExn e), w)
            | Inr db' \<Rightarrow>
                (Inr (bait_results w uid baits acc),
                 w\<lparr>inv_db := db', trace := EvUpdateBaits baits # trace w\<rparr>))
      else (case bait_fallback w uid baits of
              (Some e, w') \<Rightarrow> (Inl e, w')
            | (None, w') \<Rightarrow> (Inr (bait_results w uid baits acc), w')))"

text \<open>
  The coins block reads the user again and adds the total; a missing user makes the
  attribute access fail.
\<close>

definition grant_coins :: "world \<Rightarrow> string \<Rightarrow> int \<Rightarrow> grant_acc \<Rightarrow> (exn + grant_acc) \<times> world" where
  "grant_coins w uid coins_total acc =
     (if coins_total > 0
      then (case get_by_id w uid of
              None \<Rightarrow> (Inl AttributeError, w)
            | Some u \<Rightarrow>
                (case acc of (granted, logs) \<Rightarrow>
                   (Inr (granted @ [CoinsReward coins_total],
                         create_log_record logs uid (virtual_item ''coins'' 0 coins_total)
                           (CoinsName coins_total) 1),
                    user_repo_update w (u\<lparr>coins := coins u + coins_total\<rparr>))))
      else (Inr acc, w))"

fun grant_titles :: "world \<Rightarrow> string \<Rightarrow> int list \<Rightarrow> grant_acc \<Rightarrow> grant_acc \<times> world" where
  "grant_titles w uid [] acc = (acc, w)"
| "grant_titles w uid (title_id # rest) (granted, logs) =
     (case title_templates w title_id of
        None \<Rightarrow> grant_titles w uid rest (granted, logs)
      | Some t \<Rightarrow>
          grant_titles (grant_title_to_user w uid title_id) uid rest
            (granted @ [TitleReward title_id (tt_name t)],
             create_log_record logs uid (virtual_item ''titles'' title_id 1) (Name (tt_name t)) 0))"

fun write_log_records :: "world \<Rightarrow> gacha_record list \<Rightarrow> world" where
  "write_log_records w [] = w"
| "write_log_records w (log_record # rest) = write_log_records (add_gacha_record w log_record) rest"

text \<open>
  \<open>_grant_rewards_batch\<close>: aggregate in memory, write each kind, then write the log
  records. The counters it keeps for its own log lines are left out.
\<close>

definition grant_rewards_batch ::
  "world \<Rightarrow> string \<Rightarrow> gacha_pool_item list \<Rightarrow> (exn + reward list) \<times> world" where
  "grant_rewards_batch w uid draw_results =
     (let agg = aggregate draw_results in
      (case grant_rods w uid (agg_rods agg) ([], []) of (acc1, w1) \<Rightarrow>
      (case grant_accessories w1 uid (agg_accessories agg) acc1 of (acc2, w2) \<Rightarrow>
      (case grant_baits w2 uid (agg_baits agg) acc2 of
         (Inl e, w3) \<Rightarrow> (Inl e, w3)
       | (Inr acc3, w3) \<Rightarrow>
           (case grant_coins w3 uid (agg_coins agg) acc3 of
              (Inl e, w4) \<Rightarrow> (Inl e, w4)
            | (Inr acc4, w4) \<Rightarrow>
                (case grant_titles w4 uid (agg_titles agg) acc4 of
                   ((granted_rewards, log_records), w5) \<Rightarrow>
                     (Inr granted_rewards, write_log_records w5 log_records)))))))"

subsection \<open>A draw request\<close>

datatype failure = UserNotFound | PoolInvalid | InsufficientFunds int | DrawFailure

datatype draw_outcome = Failed failure | Succeeded "reward list"

text \<open>
  The draw loop of \<open>perform_draw\<close>: one call of the random source per draw; a draw that
  selects nothing adds nothing to \<open>draw_results\<close>.
\<close>

fun draw_loop :: "gacha_pool \<Rightarrow> nat \<Rightarrow> world \<Rightarrow> gacha_pool_item list \<times> world" where
  "draw_loop pool 0 w = ([], w)"
| "draw_loop pool (Suc n) w =
     (let drawn_item = perform_single_weighted_draw pool (random_source w (random_calls w));
          w' = w\<lparr>random_calls := Suc (random_calls w), trace := EvDraw drawn_item # trace w\<rparr>
      in case draw_loop pool n w' of
           (draw_results, w'') \<Rightarrow>
             (case drawn_item of
                None \<Rightarrow> (draw_results, w'')
              | Some it \<Rightarrow> (it # draw_results, w'')))"

text \<open>
  \<open>perform_draw\<close>, in the order of the source: the three checks, the draws, the check
  that something was drawn, the debit, the grant. The result is the dictionary returned
  (\<open>Failed\<close> stands for \<open>success: False\<close> with its message) or the exception raised.
\<close>

definition perform_draw :: "world \<Rightarrow> string \<Rightarrow> int \<Rightarrow> int \<Rightarrow> (exn + draw_outcome) \<times> world" where
  "perform_draw w uid pid num_draws =
     (case get_by_id w uid of
        None \<Rightarrow> (Inr (Failed UserNotFound), w)
      | Some u \<Rightarrow>
          (case pools w pid of
             None \<Rightarrow> (Inr (Failed PoolInvalid), w)
           | Some pool \<Rightarrow>
               if items pool = [] then (Inr (Failed PoolInvalid), w)
               else (let total_cost = cost_coins pool * num_draws in
                     if \<not> can_afford u total_cost
                     then (Inr (Failed (InsufficientFunds total_cost)), w)
                     else (case draw_loop pool (nat num_draws) w of
                             (draw_results, w1) \<Rightarrow>
                               if draw_results = [] then (Inr (Failed DrawFailure), w1)
                               else (case grant_rewards_batch
                                            (user_repo_update w1 (u\<lparr>coins := coins u - total_cost\<rparr>))
                                            uid draw_results of
                                       (Inl e, w3) \<Rightarrow> (Inl e, w3)
                                     | (Inr granted_rewards, w3) \<Rightarrow>
                                         (Inr (Succeeded granted_rewards), w3))))))"

section \<open>The ten-thousand draw (main.py, \<open>ten_thousand_gacha\<close>)\<close>

text \<open>
  The handler is an asynchronous generator: at each \<open>yield\<close> it hands a message to the
  framework and is suspended, and other handlers may run before it is resumed. The
  messages are the constructors of \<open>response\<close>, with the numbers the source formats
  into their text. \<open>others i\<close> is what the rest of the plugin does to the world while the
  handler is suspended at its \<open>i\<close>-th \<open>yield\<close>; the identity is a handler running alone.
\<close>

record report =
  rp_failed_at_batch :: int
  rp_actual_draws :: int
  rp_refunded_cost :: int
  rp_actual_cost :: int
  rp_kept_items :: int
  rp_coins_from_draws :: int
  rp_ultra_rare_items :: "string list"

datatype response =
    AlreadyRunning
  | Busy "string option"
  | NeedPoolId
  | PoolIdNotNumber
  | PoolNotFound
  | NotRegistered
  | NotEnoughCoins int int
  | RiskPrompt int
  | Progress int
  | Report report
  | DetailList "string list"
  | StartFailedFullRefund int exn
  | Aborted int int exn
  | RefundFailed int exn exn

definition yield :: "(nat \<Rightarrow> world \<Rightarrow> world) \<Rightarrow> response list \<Rightarrow> response \<Rightarrow> world
    \<Rightarrow> response list \<times> world" where
  "yield others out msg w = (out @ [msg], others (length out) w)"

text \<open>\<open>message_str.split(" ")\<close>, \<open>str.isdigit\<close> and \<open>int\<close> on ASCII text.\<close>

fun split_space :: "string \<Rightarrow> string list" where
  "split_space [] = [[]]"
| "split_space (c # cs) =
     (if c = CHR '' '' then [] # split_space cs
      else (case split_space cs of
              [] \<Rightarrow> [[c]]
            | word # ws \<Rightarrow> (c # word) # ws))"

definition isdigit :: "string \<Rightarrow> bool" where
  "isdigit s = (s \<noteq> [] \<and> list_all (\<lambda>c. c \<in> set ''0123456789'') s)"

definition int_of_digits :: "string \<Rightarrow> int" where
  "int_of_digits s = foldl (\<lambda>a c. 10 * a + (of_char c - 48)) 0 s"

definition batch_size :: int where
  "batch_size = 2000"

text \<open>
  The answer while the lock is held. The holder's nickname is looked up in the user
  repository; \<open>Busy None\<close> is the message with the placeholder for an unknown user.
\<close>

definition busy_response :: "world \<Rightarrow> string \<Rightarrow> response" where
  "busy_response w uid =
     (let current_user = ten_thousand_gacha_user w in
      if current_user = Some uid then AlreadyRunning
      else (let holder = (case current_user of
                            None \<Rightarrow> None
                          | Some cu \<Rightarrow> if cu = [] then None else get_by_id w cu)
            in Busy (case holder of None \<Rightarrow> None | Some h \<Rightarrow> Some (nickname h))))"

text \<open>
  The local variables of the handler that the batches change: \<open>user\<close> (the object read
  before the batches start), \<open>total_results\<close>, \<open>processed\<close>, \<open>failed_at_batch\<close>, and the
  messages yielded so far.
\<close>

record loop_state =
  ls_user :: user
  ls_total_results :: "reward list"
  ls_processed :: int
  ls_failed_at_batch :: int
  ls_out :: "response list"

text \<open>
  \<open>for batch in range(5)\<close>. A batch that succeeds extends the results and, except for
  the last, yields the progress. A batch that returns a failure sets \<open>failed_at_batch\<close>,
  adds \<open>(5 - batch) * batch_size * cost\<close> to \<open>user.coins\<close> when that is positive, writes
  \<open>user\<close> back and leaves the loop. An exception leaves the \<open>try\<close> block.
\<close>

fun batch_loop ::
  "(nat \<Rightarrow> world \<Rightarrow> world) \<Rightarrow> string \<Rightarrow> int \<Rightarrow> gacha_pool \<Rightarrow> nat list \<Rightarrow> loop_state \<Rightarrow> world
     \<Rightarrow> (exn option \<times> loop_state) \<times> world" where
  "batch_loop others uid pid pool_info [] st w = ((None, st), w)"
| "batch_loop others uid pid pool_info (batch # rest) st w =
     (case perform_draw w uid pid batch_size of
        (Inl e, w') \<Rightarrow> ((Some e, st), w')
      | (Inr (Succeeded results), w') \<Rightarrow>
          (let st' = st\<lparr>ls_total_results := ls_total_results st @ results,
                        ls_processed := ls_processed st + batch_size\<rparr>
           in if batch < 4
              then (case yield others (ls_out st') (Progress (ls_processed st')) w' of
                      (out', w'') \<Rightarrow>
                        batch_loop others uid pid pool_info rest (st'\<lparr>ls_out := out'\<rparr>) w'')
              else batch_loop others uid pid pool_info rest st' w')
      | (Inr (Failed f), w') \<Rightarrow>
          (let remaining_batches = 5 - int batch;
               remaining_cost = remaining_batches * batch_size * cost_coins pool_info;
               st' = st\<lparr>ls_failed_at_batch := int batch + 1\<rparr>
           in if remaining_cost > 0
              then (let u' = (ls_user st)\<lparr>coins := coins (ls_user st) + remaining_cost\<rparr>
                    in ((None, st'\<lparr>ls_user := u'\<rparr>), user_repo_update w' u'))
              else ((None, st'), w')))"

text \<open>
  The statistics over \<open>total_results\<close>. \<open>rarity_count\<close> has the keys 1 to 5, and any
  other rarity raises \<open>KeyError\<close>; a reward without a rarity counts as 1.
\<close>

record stats =
  st_rarity_count :: "int \<Rightarrow> int"
  st_coins_from_draws :: int
  st_ultra_rare_items :: "string list"
  st_special_items :: "string list"

fun reward_rarity :: "reward \<Rightarrow> int" where
  "reward_rarity (RodReward _ _ r) = r"
| "reward_rarity (AccessoryReward _ _ r) = r"
| "reward_rarity (BaitReward _ _ r _) = r"
| "reward_rarity (CoinsReward _) = 1"
| "reward_rarity (TitleReward _ _) = 1"

fun reward_name :: "reward \<Rightarrow> string" where
  "reward_name (RodReward _ n _) = n"
| "reward_name (AccessoryReward _ n _) = n"
| "reward_name (BaitReward _ n _ _) = n"
| "reward_name (CoinsReward _) = []"
| "reward_name (TitleReward _ n) = n"

fun stats_loop :: "reward list \<Rightarrow> stats \<Rightarrow> exn + stats" where
  "stats_loop [] s = Inr s"
| "stats_loop (CoinsReward q # rest) s =
     stats_loop rest (s\<lparr>st_coins_from_draws := st_coins_from_draws s + q\<rparr>)"
| "stats_loop (item # rest) s =
     (let rarity = reward_rarity item in
      if rarity < 1 \<or> 5 < rarity then Inl KeyError
      else (let s1 = s\<lparr>st_rarity_count :=
                         (st_rarity_count s)(rarity := st_rarity_count s rarity + 1)\<rparr>;
                s2 = (if rarity = 5
                      then s1\<lparr>st_ultra_rare_items := st_ultra_rare_items s1 @ [reward_name item]\<rparr>
                      else if rarity = 4
                      then s1\<lparr>st_special_items := st_special_items s1 @ [reward_name item]\<rparr>
                      else s1)
            in stats_loop rest s2))"

definition release_lock :: "world \<Rightarrow> world" where
  "release_lock w = w\<lparr>ten_thousand_gacha_lock := False, ten_thousand_gacha_user := None\<rparr>"

text \<open>
  The handler of \<open>except Exception\<close>: a full refund when nothing was processed, else a
  refund of what was not processed; a failure of the refund itself is reported.
\<close>

definition except_path ::
  "(nat \<Rightarrow> world \<Rightarrow> world) \<Rightarrow> string \<Rightarrow> gacha_pool \<Rightarrow> int \<Rightarrow> loop_state \<Rightarrow> exn \<Rightarrow> world
     \<Rightarrow> response list \<times> world" where
  "except_path others uid pool_info total_cost st e w =
     (if ls_processed st = 0
      then (case get_by_id w uid of
              None \<Rightarrow> yield others (ls_out st) (RefundFailed (ls_processed st) e AttributeError) w
            | Some u \<Rightarrow>
                yield others (ls_out st) (StartFailedFullRefund total_cost e)
                  (user_repo_update w (u\<lparr>coins := coins u + total_cost\<rparr>)))
      else (let actual_cost = ls_processed st * cost_coins pool_info;
                remaining_cost = total_cost - actual_cost
            in if remaining_cost > 0
               then (case get_by_id w uid of
                       None \<Rightarrow>
                         yield others (ls_out st) (RefundFailed (ls_processed st) e AttributeError) w
                     | Some u \<Rightarrow>
                         yield others (ls_out st) (Aborted (ls_processed st) remaining_cost e)
                           (user_repo_update w (u\<lparr>coins := coins u + remaining_cost\<rparr>)))
               else yield others (ls_out st) (Aborted (ls_processed st) remaining_cost e) w))"

text \<open>
  After the loop: the figures of the report, the statistics, the report itself, the
  release of the lock, and the full list of five-star items when there are more than 15.
\<close>

definition report_phase ::
  "(nat \<Rightarrow> world \<Rightarrow> world) \<Rightarrow> string \<Rightarrow> gacha_pool \<Rightarrow> int \<Rightarrow> loop_state \<Rightarrow> world
     \<Rightarrow> response list \<times> world" where
  "report_phase others uid pool_info total_cost st w =
     (let is_partial = ls_failed_at_batch st > 0;
          actual_draws = ls_processed st;
          actual_cost = actual_draws * cost_coins pool_info;
          refunded_cost = (if is_partial then total_cost - actual_cost else 0)
      in case stats_loop (ls_total_results st)
                \<lparr>st_rarity_count = (\<lambda>_. 0), st_coins_from_draws = 0,
                 st_ultra_rare_items = [], st_special_items = []\<rparr> of
           Inl e \<Rightarrow> except_path others uid pool_info total_cost st e w
         | Inr s \<Rightarrow>
             (case yield others (ls_out st)
                     (Report \<lparr>rp_failed_at_batch = ls_failed_at_batch st,
                              rp_actual_draws = actual_draws,
                              rp_refunded_cost = refunded_cost,
                              rp_actual_cost = actual_cost,
                              rp_kept_items = sum_list (map (st_rarity_count s) [1, 2, 3, 4, 5]),
                              rp_coins_from_draws = st_coins_from_draws s,
                              rp_ultra_rare_items = take 15 (st_ultra_rare_items s)\<rparr>) w of
                (out1, w1) \<Rightarrow>
                  if length (st_ultra_rare_items s) > 15
                  then yield others out1 (DetailList (st_ultra_rare_items s)) (release_lock w1)
                  else (out1, release_lock w1)))"

text \<open>
  The handler. The checks before the \<open>try\<close> block return without touching the lock;
  everything after them ends in the \<open>finally\<close> clause, which releases it.
\<close>

definition run_ten_thousand ::
  "(nat \<Rightarrow> world \<Rightarrow> world) \<Rightarrow> world \<Rightarrow> string \<Rightarrow> int \<Rightarrow> gacha_pool \<Rightarrow> user \<Rightarrow> int
     \<Rightarrow> response list \<times> world" where
  "run_ten_thousand others w uid pid pool_info u total_cost =
     (case yield others [] (RiskPrompt total_cost) w of
        (out0, w0) \<Rightarrow>
          (let w1 = w0\<lparr>ten_thousand_gacha_lock := True, ten_thousand_gacha_user := Some uid\<rparr>;
               st0 = \<lparr>ls_user = u, ls_total_results = [], ls_processed = 0,
                      ls_failed_at_batch = - 1, ls_out = out0\<rparr>
           in case (case batch_loop others uid pid pool_info [0, 1, 2, 3, 4] st0 w1 of
                      ((Some e, st), w2) \<Rightarrow> except_path others uid pool_info total_cost st e w2
                    | ((None, st), w2) \<Rightarrow> report_phase others uid pool_info total_cost st w2) of
                (out, w3) \<Rightarrow> (out, release_lock w3)))"

definition ten_thousand_gacha ::
  "(nat \<Rightarrow> world \<Rightarrow> world) \<Rightarrow> world \<Rightarrow> string \<Rightarrow> string \<Rightarrow> response list \<times> world" where
  "ten_thousand_gacha others w uid message_str =
     (if ten_thousand_gacha_lock w then ([busy_response w uid], w)
      else (let args = split_space message_str in
            if length args < 2 then ([NeedPoolId], w)
            else (let pool_arg = args ! 1 in
                  if \<not> isdigit pool_arg then ([PoolIdNotNumber], w)
                  else (let pid = int_of_digits pool_arg in
                        case pools w pid of
                          None \<Rightarrow> ([PoolNotFound], w)
                        | Some pool_info \<Rightarrow>
                            (let total_cost = cost_coins pool_info * 10000 in
                             case get_by_id w uid of
                               None \<Rightarrow> ([NotRegistered], w)
                             | Some u \<Rightarrow>
                                 if \<not> can_afford u total_cost
                                 then ([NotEnoughCoins total_cost (coins u)], w)
                                 else run_ten_thousand others w uid pid pool_info u total_cost)))))"

section \<open>Example inputs\<close>

definition empty_db :: database where
  "empty_db =
     \<lparr>user_fish_inventory = [], user_bait_inventory = [], user_rods = [],
      user_accessories = [], fish = Map.empty, last_rod_rowid = 0,
      last_accessory_rowid = 0, refuses = (\<lambda>_. False)\<rparr>"

text \<open>A pool whose only entry has weight 0, and a pool with two weighted entries.\<close>

definition zero_item :: gacha_pool_item where
  "zero_item = \<lparr>gacha_pool_id = 1, item_type = ''coins'', item_id = 0, quantity = 10, weight = 0\<rparr>"

definition zero_pool :: gacha_pool where
  "zero_pool = \<lparr>pool_id = 1, cost_coins = 100, items = [zero_item]\<rparr>"

definition rod_item :: gacha_pool_item where
  "rod_item = \<lparr>gacha_pool_id = 2, item_type = ''rod'', item_id = 7, quantity = 1, weight = 70\<rparr>"

definition coin_item :: gacha_pool_item where
  "coin_item = \<lparr>gacha_pool_id = 2, item_type = ''coins'', item_id = 0, quantity = 10, weight = 30\<rparr>"

definition two_pool :: gacha_pool where
  "two_pool = \<lparr>pool_id = 2, cost_coins = 100, items = [rod_item, coin_item]\<rparr>"

text \<open>Alice holds three of bait 1.\<close>

definition bait_db :: database where
  "bait_db =
     empty_db\<lparr>user_bait_inventory :=
       [\<lparr>ubi_user_id = ''alice'', ubi_bait_id = 1, ubi_quantity = 3\<rparr>]\<rparr>"

text \<open>Alice owns rod instance 1, not equipped, and accessory instance 1, equipped.\<close>

definition equip_db :: database where
  "equip_db =
     empty_db\<lparr>user_rods := [new_rod 1 ''alice'' 10 None 1],
              user_accessories := [(new_accessory 1 ''alice'' 20 1)\<lparr>acc_is_equipped := True\<rparr>],
              last_rod_rowid := 1, last_accessory_rowid := 1\<rparr>"

text \<open>Alice holds five of fish 1 (base value 10) and one of fish 2 (base value 20).\<close>

definition fish_db :: database where
  "fish_db =
     empty_db\<lparr>user_fish_inventory :=
       [\<lparr>ufi_user_id = ''alice'', ufi_fish_id = 1, ufi_quantity = 5\<rparr>,
        \<lparr>ufi_user_id = ''alice'', ufi_fish_id = 2, ufi_quantity = 1\<rparr>],
      fish := [1 \<mapsto> \<lparr>fish_name = ''fishA'', fish_base_value = 10\<rparr>,
               2 \<mapsto> \<lparr>fish_name = ''fishB'', fish_base_value = 20\<rparr>]\<rparr>"

text \<open>
  Three users, three pools (the third has a cost but no entries), and a world in which
  none of the repositories refuses anything. In \<open>locked_world\<close> Alice holds the lock of
  the ten-thousand draw.
\<close>

definition alice :: user where
  "alice = \<lparr>user_id = ''alice'', nickname = ''Alice'', coins = 1000\<rparr>"

definition carol :: user where
  "carol = \<lparr>user_id = ''carol'', nickname = ''Carol'', coins = 500\<rparr>"

definition dave :: user where
  "dave = \<lparr>user_id = ''dave'', nickname = ''Dave'', coins = 10000\<rparr>"

definition hollow_pool :: gacha_pool where
  "hollow_pool = \<lparr>pool_id = 3, cost_coins = 1, items = []\<rparr>"

definition world0 :: world where
  "world0 =
     \<lparr>inv_db = empty_db, users = [alice, carol, dave],
      pools = [1 \<mapsto> zero_pool, 2 \<mapsto> two_pool, 3 \<mapsto> hollow_pool],
      rod_templates = [7 \<mapsto> \<lparr>rt_name = ''rodA'', rt_rarity = 4, rt_durability = Some 50\<rparr>],
      accessory_templates = Map.empty,
      bait_templates = [3 \<mapsto> \<lparr>bt_name = ''worm'', bt_rarity = 1\<rparr>],
      title_templates = Map.empty,
      user_titles = [], gacha_records = [],
      random_source = (\<lambda>_. 4 / 5), random_calls = 0,
      repo_has_batch_update = True, trace = [],
      ten_thousand_gacha_lock = False, ten_thousand_gacha_user = None\<rparr>"

definition locked_world :: world where
  "locked_world =
     world0\<lparr>ten_thousand_gacha_lock := True, ten_thousand_gacha_user := Some ''alice''\<rparr>"

text \<open>Two draws of bait 3, of two and of three units.\<close>

definition worm2 :: gacha_pool_item where
  "worm2 = \<lparr>gacha_pool_id = 5, item_type = ''bait'', item_id = 3, quantity = 2, weight = 1\<rparr>"

definition worm3 :: gacha_pool_item where
  "worm3 = \<lparr>gacha_pool_id = 5, item_type = ''bait'', item_id = 3, quantity = 3, weight = 1\<rparr>"

text \<open>
  Runs of the ten-thousand draw that fail at the third sub-batch. Eve has 10000 coins;
  pool 4 costs 1 a draw and its only entry gives 1 coin, so a sub-batch leaves her
  balance where it was. \<open>coin_world ps c rc tr gr\<close> is the world with the pools \<open>ps\<close> in
  which Eve has \<open>c\<close> coins and holds the lock, after \<open>rc\<close> calls of the random source,
  with trace \<open>tr\<close> and audit log \<open>gr\<close>. \<open>batch_trace c tr\<close> is the trace after one
  sub-batch started with \<open>c\<close> coins: 2000 draws, the debit, the coins granted, the audit
  row. While the draw is suspended at its yield number 2, the progress message after
  the second sub-batch, \<open>close_pool\<close> is an administrator removing pool 4, and \<open>drain\<close>
  is another handler spending all of Eve's coins. \<open>start_state\<close> holds the local
  variables when the loop starts, \<open>two_batches_done\<close> after two successful sub-batches.
\<close>

definition eve :: user where
  "eve = \<lparr>user_id = ''eve'', nickname = ''Eve'', coins = 10000\<rparr>"

definition penny_item :: gacha_pool_item where
  "penny_item = \<lparr>gacha_pool_id = 4, item_type = ''coins'', item_id = 0, quantity = 1, weight = 1\<rparr>"

definition penny_pool :: gacha_pool where
  "penny_pool = \<lparr>pool_id = 4, cost_coins = 1, items = [penny_item]\<rparr>"

definition coin_record :: gacha_record where
  "coin_record =
     \<lparr>rec_record_id = 0, rec_user_id = ''eve'', rec_gacha_pool_id = 0,
      rec_item_type = ''coins'', rec_item_id = 0, rec_item_name = CoinsName 2000,
      rec_quantity = 2000, rec_rarity = 1\<rparr>"

definition coin_world ::
  "(int \<rightharpoonup> gacha_pool) \<Rightarrow> int \<Rightarrow> nat \<Rightarrow> event list \<Rightarrow> gacha_record list \<Rightarrow> world" where
  "coin_world ps c rc tr gr =
     world0\<lparr>users := [eve\<lparr>coins := c\<rparr>], pools := ps, random_calls := rc,
            trace := tr, gacha_records := gr,
            ten_thousand_gacha_lock := True, ten_thousand_gacha_user := Some ''eve''\<rparr>"

definition batch_trace :: "int \<Rightarrow> event list \<Rightarrow> event list" where
  "batch_trace c tr =
     EvAddGachaRecord coin_record # EvUserUpdate (eve\<lparr>coins := c\<rparr>)
       # EvUserUpdate (eve\<lparr>coins := c - 2000\<rparr>)
       # replicate 2000 (EvDraw (Some penny_item)) @ tr"


definition drain :: "nat \<Rightarrow> world \<Rightarrow> world" where
  "drain i w =
     (if i = 2
      then w\<lparr>users := map (\<lambda>u. if user_id u = ''eve'' then u\<lparr>coins := 0\<rparr> else u) (users w)\<rparr>
      else w)"

definition start_state :: loop_state where
  "start_state =
     \<lparr>ls_user = eve, ls_total_results = [], ls_processed = 0, ls_failed_at_batch = - 1,
      ls_out = [RiskPrompt 10000]\<rparr>"

definition two_batches_done :: loop_state where
  "two_batches_done =
     \<lparr>ls_user = eve, ls_total_results = [CoinsReward 2000, CoinsReward 2000],
      ls_processed = 4000, ls_failed_at_batch = - 1,
      ls_out = [RiskPrompt 10000, Progress 2000, Progress 4000]\<rparr>"

section \<open>Notions used in the statements\<close>

text \<open>The invariant of a stackable table: every stored quantity is positive.\<close>

definition bait_rows_positive :: "bait_inv_row list \<Rightarrow> bool" where
  "bait_rows_positive tbl = list_all (\<lambda>r. 0 < ubi_quantity r) tbl"

text \<open>The base value of a fish template, 0 where the \<open>fish\<close> table has no such row.\<close>

definition base_value_of :: "database \<Rightarrow> int \<Rightarrow> int" where
  "base_value_of db fid = (case fish db fid of None \<Rightarrow> 0 | Some f \<Rightarrow> fish_base_value f)"

text \<open>Every row of the fish inventory refers to a row of the \<open>fish\<close> table.\<close>

definition fish_rows_have_template :: "database \<Rightarrow> bool" where
  "fish_rows_have_template db =
     list_all (\<lambda>r. fish db (ufi_fish_id r) \<noteq> None) (user_fish_inventory db)"

text \<open>
  \<open>is_draw\<close> holds of the calls of the random source. \<open>no_draw_since w w'\<close>: the calls
  made from \<open>w\<close> to \<open>w'\<close> extend the trace and none of them is a draw.
\<close>

fun is_draw :: "event \<Rightarrow> bool" where
  "is_draw (EvDraw _) = True"
| "is_draw _ = False"

definition no_draw_since :: "world \<Rightarrow> world \<Rightarrow> bool" where
  "no_draw_since w w' = (\<exists>new. trace w' = new @ trace w \<and> list_all (\<lambda>e. \<not> is_draw e) new)"

text \<open>
  \<open>successful_batches\<close> runs the sub-batches of a list as long as each \<open>perform_draw\<close>
  returns a success, with the progress messages and the suspensions of the loop, and
  gives the local variables and the world they leave; it gives \<open>None\<close> when one of them
  does not succeed.
\<close>

fun successful_batches ::
  "(nat \<Rightarrow> world \<Rightarrow> world) \<Rightarrow> string \<Rightarrow> int \<Rightarrow> nat list \<Rightarrow> loop_state \<Rightarrow> world
     \<Rightarrow> (loop_state \<times> world) option" where
  "successful_batches others uid pid [] st w = Some (st, w)"
| "successful_batches others uid pid (batch # rest) st w =
     (case perform_draw w uid pid batch_size of
        (Inr (Succeeded results), w') \<Rightarrow>
          (let st' = st\<lparr>ls_total_results := ls_total_results st @ results,
                        ls_processed := ls_processed st + batch_size\<rparr>
           in if batch < 4
              then successful_batches others uid pid rest
                     (st'\<lparr>ls_out := ls_out st' @ [Progress (ls_processed st')]\<rparr>)
                     (others (length (ls_out st')) w')
              else successful_batches others uid pid rest st' w')
      | _ \<Rightarrow> None)"

text \<open>
  \<open>draw_outcomes pool w n\<close> lists what \<open>n\<close> successive draws from \<open>pool\<close> select,
  starting in the world \<open>w\<close>; \<open>after_draws w ds\<close> is \<open>w\<close> after the draws \<open>ds\<close>: only the
  count of calls of the random source and the trace have changed.
\<close>

definition draw_outcomes :: "gacha_pool \<Rightarrow> world \<Rightarrow> nat \<Rightarrow> gacha_pool_item option list" where
  "draw_outcomes pool w n =
     map (\<lambda>i. perform_single_weighted_draw pool (random_source w (random_calls w + i))) [0..<n]"

definition after_draws :: "world \<Rightarrow> gacha_pool_item option list \<Rightarrow> world" where
  "after_draws w ds =
     w\<lparr>random_calls := random_calls w + length ds, trace := rev (map EvDraw ds) @ trace w\<rparr>"

text \<open>
  The audit rows of bait. \<open>bait_total b draws\<close> is the sum of the quantities of the draws
  of bait \<open>b\<close>; \<open>bait_log_record\<close> is the row \<open>_create_log_record\<close> makes for the
  aggregated group of a bait; \<open>bait_logs\<close> lists the rows of the bait block, one per pair
  with a template and a positive total; \<open>is_bait_row b\<close> selects the rows of bait \<open>b\<close>.
\<close>

definition bait_total :: "int \<Rightarrow> gacha_pool_item list \<Rightarrow> int" where
  "bait_total b draws =
     sum_list (map quantity (filter (\<lambda>it. item_type it = ''bait'' \<and> item_id it = b) draws))"

definition bait_lookup :: "(int \<times> int) list \<Rightarrow> int \<Rightarrow> int" where
  "bait_lookup m b = (case map_of m b of None \<Rightarrow> 0 | Some v \<Rightarrow> v)"

definition bait_log_record :: "string \<Rightarrow> int \<Rightarrow> bait_template \<Rightarrow> int \<Rightarrow> gacha_record" where
  "bait_log_record uid b t q =
     \<lparr>rec_record_id = 0, rec_user_id = uid, rec_gacha_pool_id = 0, rec_item_type = ''bait'',
      rec_item_id = b, rec_item_name = Name (bt_name t), rec_quantity = q,
      rec_rarity = bt_rarity t\<rparr>"

definition bait_logs ::
  "(int \<rightharpoonup> bait_template) \<Rightarrow> string \<Rightarrow> (int \<times> int) list \<Rightarrow> gacha_record list" where
  "bait_logs tmpl uid baits =
     concat (map (\<lambda>(b, q). case tmpl b of
                              None \<Rightarrow> []
                            | Some t \<Rightarrow> if q > 0 then [bait_log_record uid b t q] else []) baits)"

definition is_bait_row :: "int \<Rightarrow> gacha_record \<Rightarrow> bool" where
  "is_bait_row b r = (rec_item_type r = ''bait'' \<and> rec_item_id r = b)"

definition no_bait_rows :: "gacha_record list \<Rightarrow> bool" where
  "no_bait_rows rs = list_all (\<lambda>r. rec_item_type r \<noteq> ''bait'') rs"

section \<open>The weighted draw\<close>

lemma draw_walk_some:
  "its \<noteq> [] \<Longrightarrow> r \<le> real_of_int (cw + sum_list (map weight its)) \<Longrightarrow>
   \<exists>it\<in>set its. draw_walk its r cw = Some it"
proof (induction its arbitrary: cw)
  case Nil
  then show ?case by simp
next
  case (Cons a rest)
  show ?case
  proof (cases "r \<le> real_of_int (cw + weight a)")
    case True
    then show ?thesis by simp
  next
    case False
    show ?thesis
    proof (cases rest)
      case Nil
      with Cons.prems False show ?thesis by simp
    next
      case (Cons b rest')
      then have ne: "rest \<noteq> []" by simp
      from Cons.prems have "r \<le> real_of_int ((cw + weight a) + sum_list (map weight rest))"
        by (simp add: add.assoc)
      from Cons.IH[OF ne this] False show ?thesis by auto
    qed
  qed
qed

text \<open>
  C3, as stated, fails: the pool \<open>zero_pool\<close> has one entry and total weight zero, and
  the draw returns that entry.
\<close>

theorem zero_weight_pool_draws_entry:
  "total_weight zero_pool = 0 \<and> perform_single_weighted_draw zero_pool (1 / 2) = Some zero_item"
  by (simp add: total_weight_def perform_single_weighted_draw_def uniform_def zero_pool_def
      zero_item_def)

text \<open>
  C3, amended. For a pool with zero entries the draw returns no entry (\<open>None\<close>). For a
  pool with at least one entry and total weight at least zero, zero included, it returns
  an entry of the pool, whatever number in \<open>[0, 1]\<close> the random source gives.
\<close>

theorem draw_returns_entry:
  "(items p = [] \<longrightarrow> perform_single_weighted_draw p u = None) \<and>
   (items p \<noteq> [] \<and> 0 \<le> total_weight p \<and> 0 \<le> u \<and> u \<le> 1 \<longrightarrow>
      (\<exists>it\<in>set (items p). perform_single_weighted_draw p u = Some it))"
proof (intro conjI impI)
  assume "items p = []"
  then show "perform_single_weighted_draw p u = None"
    by (simp add: perform_single_weighted_draw_def)
next
  assume a: "items p \<noteq> [] \<and> 0 \<le> total_weight p \<and> 0 \<le> u \<and> u \<le> 1"
  then have "real_of_int (total_weight p) * u \<le> real_of_int (total_weight p)"
    by (simp add: mult_left_le)
  then have "uniform 0 (real_of_int (total_weight p)) u
      \<le> real_of_int (0 + sum_list (map weight (items p)))"
    by (simp add: uniform_def total_weight_def)
  from draw_walk_some[OF _ this] a
  show "\<exists>it\<in>set (items p). perform_single_weighted_draw p u = Some it"
    by (simp add: perform_single_weighted_draw_def)
qed

theorem draw_returns_entry_witness:
  "items two_pool \<noteq> [] \<and> 0 \<le> total_weight two_pool \<and> (0::real) \<le> 4 / 5 \<and> (4 / 5 :: real) \<le> 1
   \<and> perform_single_weighted_draw two_pool (4 / 5) = Some coin_item
   \<and> perform_single_weighted_draw (two_pool\<lparr>items := []\<rparr>) (4 / 5) = None"
  using draw_returns_entry [of two_pool "4 / 5"] draw_returns_entry [of "two_pool\<lparr>items := []\<rparr>" "4 / 5"]
  by (simp add: two_pool_def total_weight_def perform_single_weighted_draw_def uniform_def
      rod_item_def coin_item_def)

section \<open>Stackable quantities\<close>

lemma upsert_bait_nonneg:
  "list_all (\<lambda>r. 0 \<le> ubi_quantity r) tbl \<Longrightarrow>
   list_all (\<lambda>r. 0 \<le> ubi_quantity r) (upsert_bait uid bid delta tbl)"
  by (auto simp: upsert_bait_def list_all_iff split: option.splits)

text \<open>
  \<open>update_bait_quantity\<close> keeps the invariant: it ends by deleting the user's rows whose
  quantity is not positive.
\<close>

lemma update_bait_quantity_positive:
  assumes "update_bait_quantity db uid bid delta = Inr db'"
    and "bait_rows_positive (user_bait_inventory db)"
  shows "bait_rows_positive (user_bait_inventory db')"
proof -
  have "list_all (\<lambda>r. 0 \<le> ubi_quantity r) (user_bait_inventory db)"
    using assms(2) by (auto simp: bait_rows_positive_def list_all_iff)
  then have nn: "list_all (\<lambda>r. 0 \<le> ubi_quantity r)
      (upsert_bait uid bid delta (user_bait_inventory db))"
    by (rule upsert_bait_nonneg)
  have other: "\<forall>r\<in>set (upsert_bait uid bid delta (user_bait_inventory db)).
      ubi_user_id r \<noteq> uid \<longrightarrow> 0 < ubi_quantity r"
    using assms(2)
    by (auto simp: upsert_bait_def bait_rows_positive_def list_all_iff bait_key_def
        split: option.splits if_splits)
  from assms(1) have "user_bait_inventory db' =
      delete_empty_baits uid (upsert_bait uid bid delta (user_bait_inventory db))"
    by (auto simp: update_bait_quantity_def split: if_splits)
  with nn other show ?thesis
    by (fastforce simp: bait_rows_positive_def delete_empty_baits_def list_all_iff)
qed

lemma batch_bait_step_nonneg:
  "list_all (\<lambda>r. 0 \<le> ubi_quantity r) tbl \<Longrightarrow>
   list_all (\<lambda>r. 0 \<le> ubi_quantity r) (batch_bait_step uid upd tbl)"
  by (cases upd) (auto simp: batch_bait_step_def list_all_iff split: option.splits)

lemma batch_bait_loop_nonneg:
  "list_all (\<lambda>r. 0 \<le> ubi_quantity r) tbl \<Longrightarrow>
   list_all (\<lambda>r. 0 \<le> ubi_quantity r) (batch_bait_loop uid upds tbl)"
  by (induction upds arbitrary: tbl) (simp_all add: batch_bait_step_nonneg)

text \<open>The batch path keeps the quantities non-negative.\<close>

lemma batch_update_nonneg:
  assumes "batch_update_bait_quantities db uid upds = Inr db'"
    and "list_all (\<lambda>r. 0 \<le> ubi_quantity r) (user_bait_inventory db)"
  shows "list_all (\<lambda>r. 0 \<le> ubi_quantity r) (user_bait_inventory db')"
  using assms
  by (auto simp: batch_update_bait_quantities_def batch_bait_loop_nonneg split: if_splits)

text \<open>
  C5: the batch path breaks the invariant. Alice holds three of bait 1, every stored
  quantity is positive; after \<open>batch_update_bait_quantities\<close> with the delta \<open>-3\<close> her
  row is still there, with quantity 0. \<open>update_bait_quantity\<close> deletes the row on the
  same input.
\<close>

theorem batch_update_retains_zero_row:
  "bait_rows_positive (user_bait_inventory bait_db)
   \<and> batch_update_bait_quantities bait_db ''alice'' [(1, - 3)]
       = Inr (bait_db\<lparr>user_bait_inventory :=
                [\<lparr>ubi_user_id = ''alice'', ubi_bait_id = 1, ubi_quantity = 0\<rparr>]\<rparr>)
   \<and> update_bait_quantity bait_db ''alice'' 1 (- 3) = Inr (bait_db\<lparr>user_bait_inventory := []\<rparr>)"
  by (simp add: bait_rows_positive_def bait_db_def empty_db_def batch_update_bait_quantities_def
      batch_bait_step_def update_bait_quantity_def upsert_bait_def delete_empty_baits_def
      bait_key_def)

section \<open>Equipping\<close>

text \<open>
  C6, as stated, fails: Alice's accessory is equipped; after
  \<open>set_equipment_status\<close> with a rod instance only, it no longer is.
\<close>

theorem equipping_rod_unequips_accessory:
  "get_user_equipped_accessory equip_db ''alice''
     = Some ((new_accessory 1 ''alice'' 20 1)\<lparr>acc_is_equipped := True\<rparr>)
   \<and> set_equipment_status equip_db ''alice'' (Some 1) None
     = Inr (equip_db\<lparr>user_rods := [(new_rod 1 ''alice'' 10 None 1)\<lparr>rod_is_equipped := True\<rparr>],
                     user_accessories := [new_accessory 1 ''alice'' 20 1]\<rparr>)"
  by (simp add: equip_db_def empty_db_def set_equipment_status_def
      get_user_equipped_accessory_def new_rod_def new_accessory_def)

text \<open>
  C6, amended. \<open>set_equipment_status\<close> unequips the user's instances of both categories
  before it equips the named ones: afterwards a rod of the user is equipped exactly if it
  is the named rod instance, an accessory of the user exactly if it is the named
  accessory instance, and the instances of other users are as they were.
\<close>

theorem set_equipment_status_resets_both:
  assumes "set_equipment_status db uid rod_iid acc_iid = Inr db'"
  shows "user_rods db' =
           map (\<lambda>r. if rod_user_id r = uid
                     then r\<lparr>rod_is_equipped := (rod_iid = Some (rod_instance_id r))\<rparr> else r)
               (user_rods db)
       \<and> user_accessories db' =
           map (\<lambda>a. if acc_user_id a = uid
                     then a\<lparr>acc_is_equipped := (acc_iid = Some (accessory_instance_id a))\<rparr> else a)
               (user_accessories db)"
  using assms
  by (auto simp: set_equipment_status_def Let_def split: if_splits option.splits)

theorem set_equipment_status_resets_both_witness:
  "set_equipment_status equip_db ''alice'' None (Some 1)
     = Inr (equip_db\<lparr>user_accessories := [(new_accessory 1 ''alice'' 20 1)\<lparr>acc_is_equipped := True\<rparr>]\<rparr>)
   \<and> user_rods (equip_db\<lparr>user_accessories :=
         [(new_accessory 1 ''alice'' 20 1)\<lparr>acc_is_equipped := True\<rparr>]\<rparr>)
     = [new_rod 1 ''alice'' 10 None 1]"
proof -
  have h: "set_equipment_status equip_db ''alice'' None (Some 1)
     = Inr (equip_db\<lparr>user_accessories := [(new_accessory 1 ''alice'' 20 1)\<lparr>acc_is_equipped := True\<rparr>]\<rparr>)"
    by (simp add: equip_db_def empty_db_def set_equipment_status_def new_rod_def new_accessory_def)
  show ?thesis
    using h set_equipment_status_resets_both [OF h]
    by (simp add: equip_db_def empty_db_def new_rod_def new_accessory_def)
qed

section \<open>Selling all fish but one\<close>

lemma sold_value_loop_sum:
  "sold_value_loop its acc =
     acc + sum_list (map (\<lambda>(r, f). (ufi_quantity r - 1) * fish_base_value f) its)"
  by (induction its acc rule: sold_value_loop.induct) auto

lemma items_to_sell_sum:
  "sum_list (map (\<lambda>(r, f). (ufi_quantity r - 1) * fish_base_value f)
       (List.map_filter
          (\<lambda>r. if ufi_user_id r = uid \<and> ufi_quantity r > 1
                then (case fish db (ufi_fish_id r) of None \<Rightarrow> None | Some f \<Rightarrow> Some (r, f))
                else None) rows))
   = sum_list (map (\<lambda>r. (ufi_quantity r - 1) * base_value_of db (ufi_fish_id r))
        (filter (\<lambda>r. ufi_user_id r = uid \<and> ufi_quantity r > 1) rows))"
  by (induction rows) (auto simp: base_value_of_def split: option.splits)

lemma items_to_sell_empty:
  assumes "list_all (\<lambda>r. fish db (ufi_fish_id r) \<noteq> None) rows"
    and "List.map_filter
          (\<lambda>r. if ufi_user_id r = uid \<and> ufi_quantity r > 1
                then (case fish db (ufi_fish_id r) of None \<Rightarrow> None | Some f \<Rightarrow> Some (r, f))
                else None) rows = []"
  shows "map (\<lambda>r. if ufi_user_id r = uid \<and> ufi_quantity r > 1
                   then r\<lparr>ufi_quantity := 1\<rparr> else r) rows = rows"
  using assms by (induction rows) (auto split: option.splits if_splits)

text \<open>
  C8. Where every inventory row has its fish template, \<open>sell_fish_keep_one\<close> either
  fails, and then returns no new database, or returns the sum over the user's rows with
  quantity above 1 of (quantity - 1) times the base value, together with the database in
  which exactly those rows have quantity 1 and every other row is as it was. The witness
  is the inventory of the spec's example: 40 is returned, fishA goes to 1, fishB stays.
\<close>

theorem sell_fish_keep_one_correct:
  assumes "fish_rows_have_template db"
  shows "sell_fish_keep_one db uid =
     (if refuses db (OpSellFishKeepOne uid) then Inl (StoreError (OpSellFishKeepOne uid))
      else Inr (sum_list (map (\<lambda>r. (ufi_quantity r - 1) * base_value_of db (ufi_fish_id r))
                   (filter (\<lambda>r. ufi_user_id r = uid \<and> ufi_quantity r > 1)
                      (user_fish_inventory db))),
                db\<lparr>user_fish_inventory :=
                     map (\<lambda>r. if ufi_user_id r = uid \<and> ufi_quantity r > 1
                               then r\<lparr>ufi_quantity := 1\<rparr> else r)
                         (user_fish_inventory db)\<rparr>))"
proof (cases "refuses db (OpSellFishKeepOne uid)")
  case True
  then show ?thesis by (simp add: sell_fish_keep_one_def)
next
  case False
  have tmpl: "list_all (\<lambda>r. fish db (ufi_fish_id r) \<noteq> None) (user_fish_inventory db)"
    using assms by (simp add: fish_rows_have_template_def)
  show ?thesis
  proof (cases "items_to_sell db uid = []")
    case True
    from items_to_sell_empty[OF tmpl True[unfolded items_to_sell_def]]
    have m: "map (\<lambda>r. if ufi_user_id r = uid \<and> ufi_quantity r > 1
                       then r\<lparr>ufi_quantity := 1\<rparr> else r) (user_fish_inventory db)
             = user_fish_inventory db" .
    have s: "sum_list (map (\<lambda>r. (ufi_quantity r - 1) * base_value_of db (ufi_fish_id r))
                (filter (\<lambda>r. ufi_user_id r = uid \<and> ufi_quantity r > 1)
                   (user_fish_inventory db))) = 0"
      using items_to_sell_sum[of uid db "user_fish_inventory db"] True
      by (simp add: items_to_sell_def)
    show ?thesis using False True by (simp add: sell_fish_keep_one_def m s)
  next
    case ne: False
    show ?thesis using False ne
      by (simp add: sell_fish_keep_one_def sold_value_loop_sum items_to_sell_sum
          items_to_sell_def)
  qed
qed

theorem sell_fish_keep_one_correct_witness:
  "fish_rows_have_template fish_db
   \<and> sell_fish_keep_one fish_db ''alice'' =
       Inr (40, fish_db\<lparr>user_fish_inventory :=
              [\<lparr>ufi_user_id = ''alice'', ufi_fish_id = 1, ufi_quantity = 1\<rparr>,
               \<lparr>ufi_user_id = ''alice'', ufi_fish_id = 2, ufi_quantity = 1\<rparr>]\<rparr>)"
proof -
  have h: "fish_rows_have_template fish_db"
    by (simp add: fish_rows_have_template_def fish_db_def empty_db_def)
  show ?thesis
    using h sell_fish_keep_one_correct [OF h, of "''alice''"]
    by (simp add: fish_db_def empty_db_def base_value_of_def)
qed

section \<open>Insufficient funds\<close>

text \<open>
  C7. When the user's balance is below \<open>pool.cost * num_draws\<close>, \<open>perform_draw\<close> returns
  a failure and the world it leaves is the world it found: same balance, same
  inventory, same audit log, no call made. For a pool with at least one entry (the
  check that precedes this one) the failure is the insufficient-funds message with the
  required amount. The witness is the spec's example: balance 500, cost 100, 10 draws.
\<close>

theorem insufficient_funds_no_change:
  assumes "get_by_id w uid = Some u" and "pools w pid = Some pool"
    and "coins u < cost_coins pool * n"
  shows "\<exists>f. perform_draw w uid pid n = (Inr (Failed f), w)
            \<and> (items pool \<noteq> [] \<longrightarrow> f = InsufficientFunds (cost_coins pool * n))"
  using assms by (simp add: perform_draw_def can_afford_def Let_def)

theorem insufficient_funds_no_change_witness:
  "get_by_id world0 ''carol'' = Some carol \<and> pools world0 2 = Some two_pool
   \<and> coins carol < cost_coins two_pool * 10 \<and> items two_pool \<noteq> []
   \<and> perform_draw world0 ''carol'' 2 10 = (Inr (Failed (InsufficientFunds 1000)), world0)"
proof -
  have a: "get_by_id world0 ''carol'' = Some carol"
    by (simp add: world0_def get_by_id_def alice_def carol_def)
  have b: "pools world0 2 = Some two_pool"
    by (simp add: world0_def)
  have c: "coins carol < cost_coins two_pool * 10"
    by (simp add: carol_def two_pool_def)
  have d: "items two_pool \<noteq> []"
    by (simp add: two_pool_def)
  show ?thesis
    using a b c d insufficient_funds_no_change [OF a b c] by (auto simp: two_pool_def)
qed

section \<open>The admission lock\<close>

text \<open>
  C9. While the lock is held by another user, who is registered, a request for the
  ten-thousand draw gets one message, the busy message with the holder's nickname, and
  the handler returns at once: the world is unchanged (no debit, no draw, no queue
  entry, the lock as it was), whatever the message text and whatever else runs.
\<close>

theorem busy_rejected_without_change:
  assumes "ten_thousand_gacha_lock w" and "ten_thousand_gacha_user w = Some holder"
    and "holder \<noteq> uid" and "holder \<noteq> []" and "get_by_id w holder = Some h"
  shows "ten_thousand_gacha others w uid message_str = ([Busy (Some (nickname h))], w)"
  using assms by (simp add: ten_thousand_gacha_def busy_response_def Let_def)

theorem busy_rejected_without_change_witness:
  "ten_thousand_gacha_lock locked_world \<and> ten_thousand_gacha_user locked_world = Some ''alice''
   \<and> ''alice'' \<noteq> ''carol'' \<and> ''alice'' \<noteq> [] \<and> get_by_id locked_world ''alice'' = Some alice
   \<and> ten_thousand_gacha (\<lambda>_ w. w) locked_world ''carol'' ''wanlian 2''
       = ([Busy (Some ''Alice'')], locked_world)"
proof -
  have a: "ten_thousand_gacha_lock locked_world"
    by (simp add: locked_world_def)
  have b: "ten_thousand_gacha_user locked_world = Some ''alice''"
    by (simp add: locked_world_def)
  have c: "''alice'' \<noteq> ''carol''" and d: "''alice'' \<noteq> []"
    by simp_all
  have e: "get_by_id locked_world ''alice'' = Some alice"
    by (simp add: locked_world_def world0_def get_by_id_def alice_def)
  show ?thesis
    using a b c d e
      busy_rejected_without_change [OF a b c d e, of "\<lambda>_ w. w" "''wanlian 2''"]
    by (simp add: alice_def)
qed

section \<open>The refund of a failed sub-batch\<close>

text \<open>
  After a prefix of successful sub-batches the loop goes on from the variables and the
  world they leave, with 2000 draws processed for each and the \<open>user\<close> object untouched.
\<close>

lemma successful_prefix:
  "successful_batches others uid pid pre st w = Some (st1, w1) \<Longrightarrow>
   batch_loop others uid pid pool_info (pre @ rest) st w
     = batch_loop others uid pid pool_info rest st1 w1
   \<and> ls_processed st1 = ls_processed st + int (length pre) * batch_size
   \<and> ls_user st1 = ls_user st"
proof (induction pre arbitrary: st w)
  case Nil
  then show ?case by simp
next
  case (Cons batch pre)
  obtain r w' where pd: "perform_draw w uid pid batch_size = (r, w')"
    by (cases "perform_draw w uid pid batch_size")
  from Cons.prems pd obtain results where r: "r = Inr (Succeeded results)"
    by (auto split: sum.splits draw_outcome.splits)
  define st' where "st' = st\<lparr>ls_total_results := ls_total_results st @ results,
                        ls_processed := ls_processed st + batch_size\<rparr>"
  define st2 where "st2 = (if batch < 4
      then st'\<lparr>ls_out := ls_out st' @ [Progress (ls_processed st')]\<rparr> else st')"
  define w2 where "w2 = (if batch < 4 then others (length (ls_out st')) w' else w')"
  from Cons.prems pd r have run: "successful_batches others uid pid pre st2 w2 = Some (st1, w1)"
    by (simp add: Let_def st'_def st2_def w2_def split: if_splits)
  have step: "batch_loop others uid pid pool_info ((batch # pre) @ rest) st w
      = batch_loop others uid pid pool_info (pre @ rest) st2 w2"
    using pd r by (simp add: Let_def st'_def st2_def w2_def yield_def)
  from Cons.IH[OF run] step show ?case
    by (simp add: st2_def st'_def algebra_simps)
qed


text \<open>A user written to the repository is the user read from it afterwards.\<close>

lemma get_by_id_user_id: "get_by_id w uid = Some u \<Longrightarrow> user_id u = uid"
  unfolding get_by_id_def by (induction "users w" arbitrary: w) (auto simp: find_Some_iff)

lemma find_after_update:
  "find (\<lambda>x. user_id x = uid) xs = Some u \<Longrightarrow> user_id u' = uid \<Longrightarrow>
   find (\<lambda>x. user_id x = uid) (map (\<lambda>x. if user_id x = user_id u' then u' else x) xs) = Some u'"
  by (induction xs) (auto split: if_splits)

lemma get_by_id_after_update:
  assumes "get_by_id w uid = Some u" and "user_id u' = uid"
  shows "get_by_id (user_repo_update w u') uid = Some u'"
  using find_after_update[OF assms(1)[unfolded get_by_id_def] assms(2)]
  by (simp add: get_by_id_def user_repo_update_def)



text \<open>
  The sub-batches of 2000 draws are evaluated once and for all on the worlds
  \<open>coin_world\<close>, by induction on the number of draws.
\<close>

lemma draw_penny_pool: "perform_single_weighted_draw penny_pool (4 / 5) = Some penny_item"
  by (simp add: perform_single_weighted_draw_def penny_pool_def penny_item_def uniform_def
      total_weight_def)

lemma draw_loop_penny_pool:
  "random_source w = (\<lambda>_. 4 / 5) \<Longrightarrow>
   draw_loop penny_pool n w =
     (replicate n penny_item,
      w\<lparr>random_calls := random_calls w + n,
        trace := replicate n (EvDraw (Some penny_item)) @ trace w\<rparr>)"
proof (induction n arbitrary: w)
  case 0
  then show ?case by simp
next
  case (Suc n)
  let ?w1 = "w\<lparr>random_calls := Suc (random_calls w), trace := EvDraw (Some penny_item) # trace w\<rparr>"
  have rs: "random_source ?w1 = (\<lambda>_. 4 / 5)"
    using Suc.prems by simp
  show ?case
    using Suc.IH[OF rs] Suc.prems
    by (simp add: draw_penny_pool replicate_app_Cons_same Let_def)
qed

lemma aggregate_pennies:
  "foldl aggregate_step agg (replicate n penny_item) = agg\<lparr>agg_coins := agg_coins agg + int n\<rparr>"
proof (induction n arbitrary: agg)
  case 0
  then show ?case by simp
next
  case (Suc n)
  have "aggregate_step agg penny_item = agg\<lparr>agg_coins := agg_coins agg + 1\<rparr>"
    by (simp add: aggregate_step_def penny_item_def)
  then show ?case
    using Suc[of "agg\<lparr>agg_coins := agg_coins agg + 1\<rparr>"] by (simp add: algebra_simps)
qed

lemma draw_loop_coin_world:
  "draw_loop penny_pool 2000 (coin_world ps c rc tr gr) =
     (replicate 2000 penny_item,
      coin_world ps c (rc + 2000) (replicate 2000 (EvDraw (Some penny_item)) @ tr) gr)"
proof -
  have "random_source (coin_world ps c rc tr gr) = (\<lambda>_. 4 / 5)"
    by (simp add: coin_world_def world0_def)
  from draw_loop_penny_pool[OF this, of 2000] show ?thesis
    by (simp add: coin_world_def)
qed

lemma grant_coin_world:
  "grant_rewards_batch (coin_world ps c rc tr gr) ''eve'' (replicate 2000 penny_item) =
     (Inr [CoinsReward 2000],
      coin_world ps (c + 2000) rc
        (EvAddGachaRecord coin_record # EvUserUpdate (eve\<lparr>coins := c + 2000\<rparr>) # tr)
        (gr @ [coin_record]))"
proof -
  have agg: "aggregate (replicate 2000 penny_item) =
      \<lparr>agg_rods = [], agg_accessories = [], agg_baits = [], agg_coins = 2000, agg_titles = []\<rparr>"
    by (simp add: aggregate_def aggregate_pennies)
  show ?thesis
    unfolding grant_rewards_batch_def agg
    by (simp add: grant_rods_def grant_accessories_def grant_baits_def grant_coins_def
        coin_world_def world0_def eve_def get_by_id_def user_repo_update_def
        create_log_record_def virtual_item_def add_gacha_record_def coin_record_def)
qed

lemma refund_coin_world:
  "user_repo_update (coin_world ps c rc tr gr) (eve\<lparr>coins := d\<rparr>)
     = coin_world ps d rc (EvUserUpdate (eve\<lparr>coins := d\<rparr>) # tr) gr"
  by (simp add: user_repo_update_def coin_world_def eve_def)

lemma get_eve: "get_by_id (coin_world ps c rc tr gr) ''eve'' = Some (eve\<lparr>coins := c\<rparr>)"
  by (simp add: coin_world_def get_by_id_def eve_def)

lemma perform_draw_coin_world:
  assumes "ps 4 = Some penny_pool" and "2000 \<le> c"
  shows "perform_draw (coin_world ps c rc tr gr) ''eve'' 4 2000 =
     (Inr (Succeeded [CoinsReward 2000]),
      coin_world ps c (rc + 2000) (batch_trace c tr) (gr @ [coin_record]))"
proof -
  have p: "pools (coin_world ps c rc tr gr) 4 = Some penny_pool"
    using assms(1) by (simp add: coin_world_def)
  have cost: "cost_coins penny_pool = 1" and its: "items penny_pool \<noteq> []"
    by (simp_all add: penny_pool_def)
  have af: "can_afford (eve\<lparr>coins := c\<rparr>) (1 * 2000)"
    using assms(2) by (simp add: can_afford_def)
  have g: "grant_rewards_batch
       (coin_world ps (c - 2000) (rc + 2000)
          (EvUserUpdate (eve\<lparr>coins := c - 2000\<rparr>) # replicate 2000 (EvDraw (Some penny_item)) @ tr)
          gr)
       ''eve'' (replicate 2000 penny_item)
     = (Inr [CoinsReward 2000],
        coin_world ps c (rc + 2000) (batch_trace c tr) (gr @ [coin_record]))"
  proof -
    have a: "c - 2000 + 2000 = c" by simp
    show ?thesis unfolding grant_coin_world a batch_trace_def by simp
  qed
  show ?thesis
    unfolding perform_draw_def get_eve p option.case cost Let_def
    using its af by (simp add: draw_loop_coin_world refund_coin_world g)
qed

lemma perform_draw_coin_world_poor:
  assumes "ps 4 = Some penny_pool" and "c < 2000"
  shows "perform_draw (coin_world ps c rc tr gr) ''eve'' 4 2000 =
     (Inr (Failed (InsufficientFunds 2000)), coin_world ps c rc tr gr)"
proof -
  have p: "pools (coin_world ps c rc tr gr) 4 = Some penny_pool"
    using assms(1) by (simp add: coin_world_def)
  show ?thesis
    unfolding perform_draw_def get_eve p option.case
    using assms(2) by (simp add: penny_pool_def can_afford_def)
qed



lemma drain_coin_world:
  "drain i (coin_world ps c rc tr gr) =
     (if i = 2 then coin_world ps 0 rc tr gr else coin_world ps c rc tr gr)"
  by (simp add: drain_def coin_world_def eve_def)


lemma two_batches_then_drained:
  "successful_batches drain ''eve'' 4 [0, 1] start_state
     (coin_world [4 \<mapsto> penny_pool] 10000 0 [] [])
   = Some (two_batches_done,
           coin_world [4 \<mapsto> penny_pool] 0 4000
             (batch_trace 10000 (batch_trace 10000 [])) [coin_record, coin_record])"
  by (simp add: start_state_def two_batches_done_def batch_size_def perform_draw_coin_world
      drain_coin_world Let_def)


text \<open>
  Where the stored record has changed since the handler read it, the write of the
  refund replaces it: with her coins spent to 0 during the second suspension, Eve's
  stored balance goes from 0 to 16000, the balance read before the batches plus the
  refund. The handler of exceptions reads the user again before it adds its refund;
  this branch does not.
\<close>

lemma refund_written_from_stale_user:
  "get_by_id (coin_world [4 \<mapsto> penny_pool] 0 4000
       (batch_trace 10000 (batch_trace 10000 [])) [coin_record, coin_record]) ''eve''
     = Some (eve\<lparr>coins := 0\<rparr>)
   \<and> batch_loop drain ''eve'' 4 penny_pool [0, 1, 2, 3, 4] start_state
       (coin_world [4 \<mapsto> penny_pool] 10000 0 [] [])
     = ((None, two_batches_done\<lparr>ls_failed_at_batch := 3, ls_user := eve\<lparr>coins := 16000\<rparr>\<rparr>),
        coin_world [4 \<mapsto> penny_pool] 16000 4000
          (EvUserUpdate (eve\<lparr>coins := 16000\<rparr>) # batch_trace 10000 (batch_trace 10000 []))
          [coin_record, coin_record])"
proof -
  have five: "[0, 1, 2, 3, 4] = [0, 1] @ [2, 3, 4::nat]" by simp
  have c: "cost_coins penny_pool = 1" by (simp add: penny_pool_def)
  have e: "coins eve = 10000" by (simp add: eve_def)
  have u: "ls_user two_batches_done = eve" by (simp add: two_batches_done_def)
  show ?thesis
    unfolding five successful_prefix[OF two_batches_then_drained, THEN conjunct1]
    by (simp add: get_eve batch_size_def perform_draw_coin_world_poor refund_coin_world c e u
        Let_def)
qed

section \<open>The order of draw, debit and grant\<close>

lemma nds_refl: "no_draw_since w w"
  by (simp add: no_draw_since_def)

lemma nds_trans: "no_draw_since w w1 \<Longrightarrow> no_draw_since w1 w2 \<Longrightarrow> no_draw_since w w2"
  by (auto simp: no_draw_since_def)

lemma nds_step: "\<not> is_draw e \<Longrightarrow> trace w' = e # trace w \<Longrightarrow> no_draw_since w w'"
  by (simp add: no_draw_since_def)

lemma nds_user_repo_update: "no_draw_since w (user_repo_update w u)"
  by (rule nds_step[of "EvUserUpdate u"]) (simp_all add: user_repo_update_def)

lemma nds_grant_title: "no_draw_since w (grant_title_to_user w uid tid)"
  by (rule nds_step[of "EvGrantTitle uid tid"]) (simp_all add: grant_title_to_user_def)

lemma nds_add_gacha_record: "no_draw_since w (add_gacha_record w r)"
  by (rule nds_step[of "EvAddGachaRecord r"]) (simp_all add: add_gacha_record_def)

lemma nds_grant_rods: "grant_rods w uid rods acc = (acc', w') \<Longrightarrow> no_draw_since w w'"
  by (auto simp: grant_rods_def Let_def nds_refl split: if_splits prod.splits
      intro: nds_step[of "EvAddRods xs" for xs])

lemma nds_grant_accessories:
  "grant_accessories w uid accs acc = (acc', w') \<Longrightarrow> no_draw_since w w'"
  by (auto simp: grant_accessories_def Let_def nds_refl split: if_splits prod.splits
      intro: nds_step[of "EvAddAccessories xs" for xs])

lemma nds_bait_fallback: "bait_fallback w uid baits = (r, w') \<Longrightarrow> no_draw_since w w'"
proof (induction w uid baits rule: bait_fallback.induct)
  case (1 w uid)
  then show ?case by (simp add: nds_refl)
next
  case (2 w uid bait_id total_quantity rest)
  show ?case
  proof (cases "total_quantity > 0")
    case False
    with 2 show ?thesis by simp
  next
    case True
    show ?thesis
    proof (cases "update_bait_quantity (inv_db w) uid bait_id total_quantity")
      case (Inl e)
      with 2 True show ?thesis by (simp add: nds_refl)
    next
      case (Inr db')
      let ?w1 = "w\<lparr>inv_db := db', trace := EvUpdateBaits [(bait_id, total_quantity)] # trace w\<rparr>"
      have a: "no_draw_since w ?w1"
        by (rule nds_step[of "EvUpdateBaits [(bait_id, total_quantity)]"]) simp_all
      from 2 True Inr have "no_draw_since ?w1 w'" by simp
      with a show ?thesis by (rule nds_trans)
    qed
  qed
qed

lemma nds_grant_baits: "grant_baits w uid baits acc = (r, w') \<Longrightarrow> no_draw_since w w'"
  by (auto simp: grant_baits_def nds_refl split: if_splits sum.splits prod.splits option.splits
      intro: nds_step[of "EvUpdateBaits xs" for xs] dest: nds_bait_fallback)

lemma nds_grant_coins: "grant_coins w uid c acc = (r, w') \<Longrightarrow> no_draw_since w w'"
  by (auto simp: grant_coins_def nds_refl nds_user_repo_update split: if_splits option.splits prod.splits)

lemma nds_grant_titles: "grant_titles w uid ts acc = (acc', w') \<Longrightarrow> no_draw_since w w'"
proof (induction w uid ts acc rule: grant_titles.induct)
  case (1 w uid acc)
  then show ?case by (simp add: nds_refl)
next
  case (2 w uid title_id rest granted logs)
  show ?case
  proof (cases "title_templates w title_id")
    case None
    with 2 show ?thesis by simp
  next
    case (Some t)
    with 2 have "no_draw_since (grant_title_to_user w uid title_id) w'" by simp
    with nds_grant_title show ?thesis by (rule nds_trans)
  qed
qed

lemma nds_write_log_records: "no_draw_since w (write_log_records w logs)"
proof (induction logs arbitrary: w)
  case Nil
  show ?case by (simp add: nds_refl)
next
  case (Cons a logs)
  have "no_draw_since w (add_gacha_record w a)" by (rule nds_add_gacha_record)
  moreover have "no_draw_since (add_gacha_record w a) (write_log_records (add_gacha_record w a) logs)"
    by (rule Cons)
  ultimately show ?case by (simp add: nds_trans[of w "add_gacha_record w a"])
qed

lemma nds_grant_rewards_batch:
  assumes "grant_rewards_batch w uid draws = (r, w')"
  shows "no_draw_since w w'"
proof -
  let ?agg = "aggregate draws"
  obtain acc1 w1 where g1: "grant_rods w uid (agg_rods ?agg) ([], []) = (acc1, w1)"
    by (cases "grant_rods w uid (agg_rods ?agg) ([], [])")
  obtain acc2 w2 where g2: "grant_accessories w1 uid (agg_accessories ?agg) acc1 = (acc2, w2)"
    by (cases "grant_accessories w1 uid (agg_accessories ?agg) acc1")
  obtain r3 w3 where g3: "grant_baits w2 uid (agg_baits ?agg) acc2 = (r3, w3)"
    by (cases "grant_baits w2 uid (agg_baits ?agg) acc2")
  have n3: "no_draw_since w w3"
    using nds_grant_rods[OF g1] nds_grant_accessories[OF g2] nds_grant_baits[OF g3]
    by (blast intro: nds_trans)
  show ?thesis
  proof (cases r3)
    case (Inl e)
    with assms g1 g2 g3 n3 show ?thesis by (simp add: grant_rewards_batch_def Let_def)
  next
    case (Inr acc3)
    obtain r4 w4 where g4: "grant_coins w3 uid (agg_coins ?agg) acc3 = (r4, w4)"
      by (cases "grant_coins w3 uid (agg_coins ?agg) acc3")
    have n4: "no_draw_since w w4" using n3 nds_grant_coins[OF g4] by (rule nds_trans)
    show ?thesis
    proof (cases r4)
      case (Inl e)
      with assms g1 g2 g3 g4 Inr n4 show ?thesis by (simp add: grant_rewards_batch_def Let_def)
    next
      case r4: (Inr acc4)
      obtain gr lr w5 where g5: "grant_titles w4 uid (agg_titles ?agg) acc4 = ((gr, lr), w5)"
        by (cases "grant_titles w4 uid (agg_titles ?agg) acc4") auto
      have n5: "no_draw_since w w5" using n4 nds_grant_titles[OF g5] by (rule nds_trans)
      from assms g1 g2 g3 g4 g5 Inr r4 have "w' = write_log_records w5 lr"
        by (simp add: grant_rewards_batch_def Let_def)
      with n5 nds_write_log_records[of w5 lr] show ?thesis by (auto intro: nds_trans)
    qed
  qed
qed

text \<open>The draw loop, in closed form.\<close>

lemma draw_outcomes_Suc:
  "draw_outcomes pool w (Suc n) =
     perform_single_weighted_draw pool (random_source w (random_calls w))
       # draw_outcomes pool (w\<lparr>random_calls := Suc (random_calls w), trace := tr\<rparr>) n"
  by (simp add: draw_outcomes_def map_upt_Suc del: upt_Suc)

lemma draw_loop_explicit:
  "draw_loop pool n w =
     (List.map_filter (\<lambda>d. d) (draw_outcomes pool w n), after_draws w (draw_outcomes pool w n))"
proof (induction n arbitrary: w)
  case 0
  show ?case by (simp add: draw_outcomes_def after_draws_def List.map_filter_simps)
next
  case (Suc n)
  let ?d = "perform_single_weighted_draw pool (random_source w (random_calls w))"
  let ?w1 = "w\<lparr>random_calls := Suc (random_calls w), trace := EvDraw ?d # trace w\<rparr>"
  have ds: "draw_outcomes pool w (Suc n) = ?d # draw_outcomes pool ?w1 n"
    by (rule draw_outcomes_Suc)
  have len: "length (draw_outcomes pool ?w1 n) = n" by (simp add: draw_outcomes_def)
  have aw: "after_draws ?w1 (draw_outcomes pool ?w1 n) = after_draws w (?d # draw_outcomes pool ?w1 n)"
    by (simp add: after_draws_def len)
  show ?case
    unfolding ds using Suc[of ?w1] aw
    by (cases ?d) (simp_all add: Let_def List.map_filter_simps)
qed

text \<open>
  C2, as stated, fails. Alice has 1000 coins and draws once from pool 2 (cost 100): the
  request passes the three checks, and the first call made is the draw; the debit to 900
  is the second, the coins drawn are added next, and the audit record is written last.
\<close>

theorem draw_precedes_debit:
  "get_by_id world0 ''alice'' = Some alice \<and> pools world0 2 = Some two_pool
   \<and> items two_pool \<noteq> [] \<and> can_afford alice (cost_coins two_pool * 1)
   \<and> history (snd (perform_draw world0 ''alice'' 2 1)) =
       [EvDraw (Some coin_item),
        EvUserUpdate (alice\<lparr>coins := 900\<rparr>),
        EvUserUpdate (alice\<lparr>coins := 910\<rparr>),
        EvAddGachaRecord
          \<lparr>rec_record_id = 0, rec_user_id = ''alice'', rec_gacha_pool_id = 0,
           rec_item_type = ''coins'', rec_item_id = 0, rec_item_name = CoinsName 10,
           rec_quantity = 10, rec_rarity = 1\<rparr>]"
  by (simp add: world0_def alice_def carol_def dave_def two_pool_def rod_item_def coin_item_def
      perform_draw_def get_by_id_def can_afford_def perform_single_weighted_draw_def uniform_def
      total_weight_def grant_rewards_batch_def aggregate_def aggregate_step_def grant_rods_def
      grant_accessories_def grant_baits_def grant_coins_def user_repo_update_def
      create_log_record_def virtual_item_def add_gacha_record_def Let_def history_def)

text \<open>
  C2, amended. For every request that passes validation (user exists, pool non-empty,
  balance sufficient), \<open>perform_draw\<close> first makes all its draws, one call of the random
  source per requested draw, and these leave the balance as it was. If no draw yields
  an outcome, the result is the draw-failure message and the world is the one the draws
  left: no debit is made. Otherwise the next call is the write of the user with the
  total cost subtracted, after which the repository holds the debited balance; the
  rewards are granted in that world, the result is the grant's, and no call of the
  grant is a draw.
\<close>

theorem draws_then_debit_then_grant:
  assumes "get_by_id w uid = Some u" and "pools w pid = Some pool" and "items pool \<noteq> []"
    and "can_afford u (cost_coins pool * n)"
  shows "let ds = draw_outcomes pool w (nat n);
             w1 = after_draws w ds;
             rs = List.map_filter (\<lambda>d. d) ds;
             u' = u\<lparr>coins := coins u - cost_coins pool * n\<rparr>;
             w2 = user_repo_update w1 u'
         in length ds = nat n \<and> history w1 = history w @ map EvDraw ds
            \<and> get_by_id w1 uid = Some u
            \<and> (if rs = [] then perform_draw w uid pid n = (Inr (Failed DrawFailure), w1)
                else get_by_id w2 uid = Some u'
                   \<and> history w2 = history w1 @ [EvUserUpdate u']
                   \<and> (\<exists>r w3 rest.
                         grant_rewards_batch w2 uid rs = (r, w3)
                         \<and> perform_draw w uid pid n
                             = ((case r of Inl e \<Rightarrow> Inl e | Inr g \<Rightarrow> Inr (Succeeded g)), w3)
                         \<and> history w3 = history w2 @ rest
                         \<and> list_all (\<lambda>e. \<not> is_draw e) rest))"
proof -
  define ds where "ds = draw_outcomes pool w (nat n)"
  define w1 where "w1 = after_draws w ds"
  define rs where "rs = List.map_filter (\<lambda>d. d) ds"
  define u' where "u' = u\<lparr>coins := coins u - cost_coins pool * n\<rparr>"
  define w2 where "w2 = user_repo_update w1 u'"
  have dl: "draw_loop pool (nat n) w = (rs, w1)"
    by (simp add: draw_loop_explicit ds_def w1_def rs_def)
  have len: "length ds = nat n"
    by (simp add: ds_def draw_outcomes_def)
  have h1: "history w1 = history w @ map EvDraw ds"
    by (simp add: history_def w1_def after_draws_def rev_map)
  have g1: "get_by_id w1 uid = Some u"
    using assms(1) by (simp add: get_by_id_def w1_def after_draws_def)
  have uid: "user_id u' = uid"
    using get_by_id_user_id[OF assms(1)] by (simp add: u'_def)
  have g2: "get_by_id w2 uid = Some u'"
    unfolding w2_def by (rule get_by_id_after_update[OF g1 uid])
  have h2: "history w2 = history w1 @ [EvUserUpdate u']"
    by (simp add: history_def w2_def user_repo_update_def)
  have fail: "perform_draw w uid pid n = (Inr (Failed DrawFailure), w1)" if "rs = []"
    using assms dl that by (simp add: perform_draw_def Let_def)
  have ok: "\<exists>r w3 rest. grant_rewards_batch w2 uid rs = (r, w3)
        \<and> perform_draw w uid pid n = ((case r of Inl e \<Rightarrow> Inl e | Inr g \<Rightarrow> Inr (Succeeded g)), w3)
        \<and> history w3 = history w2 @ rest \<and> list_all (\<lambda>e. \<not> is_draw e) rest" if "rs \<noteq> []"
  proof -
    obtain r w3 where g: "grant_rewards_batch w2 uid rs = (r, w3)"
      by (cases "grant_rewards_batch w2 uid rs")
    from nds_grant_rewards_batch[OF g] obtain new where
      new: "trace w3 = new @ trace w2" "list_all (\<lambda>e. \<not> is_draw e) new"
      by (auto simp: no_draw_since_def)
    have pd: "perform_draw w uid pid n
        = ((case r of Inl e \<Rightarrow> Inl e | Inr g \<Rightarrow> Inr (Succeeded g)), w3)"
      using assms dl that g
      by (cases r) (simp_all add: perform_draw_def Let_def w2_def u'_def)
    have "history w3 = history w2 @ rev new"
      using new(1) by (simp add: history_def)
    moreover have "list_all (\<lambda>e. \<not> is_draw e) (rev new)"
      using new(2) by (simp add: list_all_iff)
    ultimately show ?thesis using g pd by blast
  qed
  show ?thesis
    unfolding Let_def ds_def[symmetric] w1_def[symmetric] rs_def[symmetric] u'_def[symmetric]
      w2_def[symmetric]
    using len h1 g1 g2 h2 fail ok by simp
qed


theorem draws_then_debit_then_grant_witness:
  "get_by_id world0 ''alice'' = Some alice \<and> pools world0 1 = Some zero_pool
   \<and> items zero_pool \<noteq> [] \<and> can_afford alice (cost_coins zero_pool * 2)
   \<and> can_afford alice (cost_coins zero_pool * (- 3))
   \<and> draw_outcomes zero_pool world0 (nat 2) = [Some zero_item, Some zero_item]
   \<and> get_by_id (user_repo_update (after_draws world0 [Some zero_item, Some zero_item])
          (alice\<lparr>coins := 800\<rparr>)) ''alice'' = Some (alice\<lparr>coins := 800\<rparr>)
   \<and> perform_draw world0 ''alice'' 1 (- 3) = (Inr (Failed DrawFailure), world0)"
proof -
  have a: "get_by_id world0 ''alice'' = Some alice"
    by (simp add: world0_def get_by_id_def alice_def)
  have b: "pools world0 1 = Some zero_pool"
    by (simp add: world0_def)
  have c: "items zero_pool \<noteq> []"
    by (simp add: zero_pool_def)
  have d: "can_afford alice (cost_coins zero_pool * 2)"
    and e: "can_afford alice (cost_coins zero_pool * (- 3))"
    by (simp_all add: can_afford_def alice_def zero_pool_def)
  have ds: "draw_outcomes zero_pool world0 (nat 2) = [Some zero_item, Some zero_item]"
    by (simp add: draw_outcomes_def world0_def perform_single_weighted_draw_def uniform_def
        total_weight_def zero_pool_def zero_item_def upt_rec)
  have none: "draw_outcomes zero_pool world0 (nat (- 3)) = []"
    by (simp add: draw_outcomes_def)
  have same: "after_draws world0 [] = world0"
    by (simp add: after_draws_def)
  have u: "alice\<lparr>coins := coins alice - cost_coins zero_pool * 2\<rparr> = alice\<lparr>coins := 800\<rparr>"
    by (simp add: alice_def zero_pool_def)
  from draws_then_debit_then_grant [OF a b c d] have "get_by_id (user_repo_update
        (after_draws world0 [Some zero_item, Some zero_item]) (alice\<lparr>coins := 800\<rparr>)) ''alice''
      = Some (alice\<lparr>coins := 800\<rparr>)"
    unfolding Let_def ds u by (simp add: List.map_filter_simps)
  moreover from draws_then_debit_then_grant [OF a b c e]
  have "perform_draw world0 ''alice'' 1 (- 3) = (Inr (Failed DrawFailure), world0)"
    unfolding Let_def none same by (simp add: List.map_filter_simps)
  ultimately show ?thesis
    using a b c d e ds by simp
qed

section \<open>The audit rows of a batch\<close>

lemma bait_add_keys: "set (map fst (bait_add k q m)) = insert k (set (map fst m))"
  by (induction k q m rule: bait_add.induct) auto

lemma bait_add_distinct: "distinct (map fst m) \<Longrightarrow> distinct (map fst (bait_add k q m))"
proof (induction k q m rule: bait_add.induct)
  case (1 k q)
  then show ?case by simp
next
  case (2 k q k' v rest)
  then show ?case using bait_add_keys[of k q rest] by auto
qed

lemma bait_add_lookup:
  "bait_lookup (bait_add k q m) b = bait_lookup m b + (if b = k then q else 0)"
  by (induction k q m rule: bait_add.induct) (auto simp: bait_lookup_def)

lemma aggregate_step_baits:
  "agg_baits (aggregate_step agg it) =
     (if item_type it = ''bait'' then bait_add (item_id it) (quantity it) (agg_baits agg)
      else agg_baits agg)"
  by (simp add: aggregate_step_def)

lemma foldl_baits_distinct:
  "distinct (map fst (agg_baits agg)) \<Longrightarrow>
   distinct (map fst (agg_baits (foldl aggregate_step agg draws)))"
  by (induction draws arbitrary: agg) (simp_all add: aggregate_step_baits bait_add_distinct)

lemma foldl_baits_lookup:
  "bait_lookup (agg_baits (foldl aggregate_step agg draws)) b =
     bait_lookup (agg_baits agg) b + bait_total b draws"
  by (induction draws arbitrary: agg)
     (auto simp: aggregate_step_baits bait_add_lookup bait_total_def)

lemma aggregate_step_rods_type:
  "\<forall>it\<in>set (agg_rods agg). item_type it = ''rod'' \<Longrightarrow>
   \<forall>it\<in>set (agg_rods (aggregate_step agg a)). item_type it = ''rod''"
  by (auto simp: aggregate_step_def)

lemma foldl_rods_type:
  "\<forall>it\<in>set (agg_rods agg). item_type it = ''rod'' \<Longrightarrow>
   \<forall>it\<in>set (agg_rods (foldl aggregate_step agg draws)). item_type it = ''rod''"
proof (induction draws arbitrary: agg)
  case Nil
  then show ?case by simp
next
  case (Cons a draws)
  from Cons.IH[OF aggregate_step_rods_type[OF Cons.prems]] show ?case by simp
qed

lemma aggregate_step_accessories_type:
  "\<forall>it\<in>set (agg_accessories agg). item_type it = ''accessory'' \<Longrightarrow>
   \<forall>it\<in>set (agg_accessories (aggregate_step agg a)). item_type it = ''accessory''"
  by (auto simp: aggregate_step_def)

lemma foldl_accessories_type:
  "\<forall>it\<in>set (agg_accessories agg). item_type it = ''accessory'' \<Longrightarrow>
   \<forall>it\<in>set (agg_accessories (foldl aggregate_step agg draws)). item_type it = ''accessory''"
proof (induction draws arbitrary: agg)
  case Nil
  then show ?case by simp
next
  case (Cons a draws)
  from Cons.IH[OF aggregate_step_accessories_type[OF Cons.prems]] show ?case by simp
qed

lemma aggregate_baits_distinct: "distinct (map fst (agg_baits (aggregate draws)))"
  unfolding aggregate_def by (rule foldl_baits_distinct) simp

lemma aggregate_baits_lookup: "bait_lookup (agg_baits (aggregate draws)) b = bait_total b draws"
proof -
  have "bait_lookup [] b = 0" by (simp add: bait_lookup_def)
  then show ?thesis unfolding aggregate_def by (simp add: foldl_baits_lookup)
qed

lemma aggregate_rods_type: "\<forall>it\<in>set (agg_rods (aggregate draws)). item_type it = ''rod''"
  unfolding aggregate_def by (rule foldl_rods_type) simp

lemma aggregate_accessories_type:
  "\<forall>it\<in>set (agg_accessories (aggregate draws)). item_type it = ''accessory''"
  unfolding aggregate_def by (rule foldl_accessories_type) simp

lemma bait_results_logs:
  "snd (bait_results w uid baits (g, l)) = l @ bait_logs (bait_templates w) uid baits"
  by (induction w uid baits "(g, l)" arbitrary: g l rule: bait_results.induct)
     (auto simp: bait_logs_def create_log_record_def virtual_item_def bait_log_record_def
        split: option.splits)

lemma bait_logs_filter_other:
  "b \<notin> set (map fst baits) \<Longrightarrow> filter (is_bait_row b) (bait_logs tmpl uid baits) = []"
  by (induction baits)
     (auto simp: bait_logs_def is_bait_row_def bait_log_record_def split: option.splits)

lemma bait_logs_Cons:
  "bait_logs tmpl uid ((k, v) # baits) =
     (case tmpl k of None \<Rightarrow> [] | Some t \<Rightarrow> if v > 0 then [bait_log_record uid k t v] else [])
     @ bait_logs tmpl uid baits"
  by (simp add: bait_logs_def)

lemma bait_row_head:
  "filter (is_bait_row b)
     (case tmpl k of None \<Rightarrow> [] | Some t \<Rightarrow> if v > 0 then [bait_log_record uid k t v] else [])
   = (if k = b
      then (case tmpl b of None \<Rightarrow> [] | Some t \<Rightarrow> if v > 0 then [bait_log_record uid b t v] else [])
      else [])"
  by (auto simp: is_bait_row_def bait_log_record_def split: option.splits)

lemma bait_logs_filter:
  "distinct (map fst baits) \<Longrightarrow>
   filter (is_bait_row b) (bait_logs tmpl uid baits) =
     (case tmpl b of
        None \<Rightarrow> []
      | Some t \<Rightarrow> if 0 < bait_lookup baits b then [bait_log_record uid b t (bait_lookup baits b)]
                  else [])"
proof (induction baits)
  case Nil
  then show ?case by (simp add: bait_logs_def bait_lookup_def split: option.splits)
next
  case (Cons a baits)
  obtain k v where a: "a = (k, v)" by (cases a)
  show ?case
  proof (cases "k = b")
    case True
    with Cons.prems a have "b \<notin> set (map fst baits)" by auto
    from bait_logs_filter_other[OF this, of tmpl uid]
    have rest: "filter (is_bait_row b) (bait_logs tmpl uid baits) = []" .
    have lk: "bait_lookup (a # baits) b = v"
      using a True by (simp add: bait_lookup_def)
    show ?thesis
      unfolding a bait_logs_Cons filter_append bait_row_head rest lk[unfolded a]
      using True by (simp split: option.splits)
  next
    case False
    have lk: "bait_lookup (a # baits) b = bait_lookup baits b"
      using a False by (simp add: bait_lookup_def)
    from Cons have ih: "filter (is_bait_row b) (bait_logs tmpl uid baits) =
     (case tmpl b of
        None \<Rightarrow> []
      | Some t \<Rightarrow> if 0 < bait_lookup baits b then [bait_log_record uid b t (bait_lookup baits b)]
                  else [])" by simp
    show ?thesis
      unfolding a bait_logs_Cons filter_append bait_row_head ih lk[unfolded a]
      using False by simp
  qed
qed


lemma no_bait_rows_filter: "no_bait_rows rs \<Longrightarrow> filter (is_bait_row b) rs = []"
  by (induction rs) (auto simp: no_bait_rows_def is_bait_row_def)

lemma rod_results_logs:
  "\<forall>it\<in>set rods. item_type it = ''rod'' \<Longrightarrow>
   \<exists>new. snd (rod_results w uid rods (g, l)) = l @ new \<and> no_bait_rows new"
proof (induction rods arbitrary: g l)
  case Nil
  then show ?case by (simp add: no_bait_rows_def)
next
  case (Cons a rods)
  show ?case
  proof (cases "rod_templates w (item_id a)")
    case None
    with Cons show ?thesis by simp
  next
    case (Some t)
    let ?r = "\<lparr>rec_record_id = 0, rec_user_id = uid, rec_gacha_pool_id = gacha_pool_id a,
         rec_item_type = item_type a, rec_item_id = item_id a, rec_item_name = Name (rt_name t),
         rec_quantity = quantity a, rec_rarity = rt_rarity t\<rparr>"
    from Cons.prems have rest: "\<forall>it\<in>set rods. item_type it = ''rod''" and a: "item_type a = ''rod''"
      by simp_all
    from Cons.IH[OF rest, of "g @ [RodReward (item_id a) (rt_name t) (rt_rarity t)]" "l @ [?r]"]
    obtain new where new: "snd (rod_results w uid rods
        (g @ [RodReward (item_id a) (rt_name t) (rt_rarity t)], l @ [?r])) = (l @ [?r]) @ new"
        "no_bait_rows new" by blast
    have "snd (rod_results w uid (a # rods) (g, l)) = l @ (?r # new)"
      using Some new(1) by (simp add: create_log_record_def)
    moreover have "no_bait_rows (?r # new)"
      using new(2) a by (simp add: no_bait_rows_def)
    ultimately show ?thesis by blast
  qed
qed

lemma accessory_results_logs:
  "\<forall>it\<in>set accs. item_type it = ''accessory'' \<Longrightarrow>
   \<exists>new. snd (accessory_results w uid accs (g, l)) = l @ new \<and> no_bait_rows new"
proof (induction accs arbitrary: g l)
  case Nil
  then show ?case by (simp add: no_bait_rows_def)
next
  case (Cons a accs)
  show ?case
  proof (cases "accessory_templates w (item_id a)")
    case None
    with Cons show ?thesis by simp
  next
    case (Some t)
    let ?r = "\<lparr>rec_record_id = 0, rec_user_id = uid, rec_gacha_pool_id = gacha_pool_id a,
         rec_item_type = item_type a, rec_item_id = item_id a, rec_item_name = Name (at_name t),
         rec_quantity = quantity a, rec_rarity = at_rarity t\<rparr>"
    from Cons.prems have rest: "\<forall>it\<in>set accs. item_type it = ''accessory''"
      and a: "item_type a = ''accessory''"
      by simp_all
    from Cons.IH[OF rest, of "g @ [AccessoryReward (item_id a) (at_name t) (at_rarity t)]" "l @ [?r]"]
    obtain new where new: "snd (accessory_results w uid accs
        (g @ [AccessoryReward (item_id a) (at_name t) (at_rarity t)], l @ [?r])) = (l @ [?r]) @ new"
        "no_bait_rows new" by blast
    have "snd (accessory_results w uid (a # accs) (g, l)) = l @ (?r # new)"
      using Some new(1) by (simp add: create_log_record_def)
    moreover have "no_bait_rows (?r # new)"
      using new(2) a by (simp add: no_bait_rows_def)
    ultimately show ?thesis by blast
  qed
qed

lemma grant_rods_logs:
  assumes "grant_rods w uid rods acc = (acc', w')"
    and "\<forall>it\<in>set rods. item_type it = ''rod''"
  shows "gacha_records w' = gacha_records w \<and> bait_templates w' = bait_templates w
       \<and> (\<exists>new. snd acc' = snd acc @ new \<and> no_bait_rows new)"
proof -
  obtain g l where acc: "acc = (g, l)" by (cases acc)
  from rod_results_logs[OF assms(2), of w uid g l] obtain new where
    new: "snd (rod_results w uid rods (g, l)) = l @ new" "no_bait_rows new" by blast
  have e: "\<exists>new. snd acc = snd acc @ new \<and> no_bait_rows new"
    by (simp add: no_bait_rows_def)
  from assms(1) new acc e show ?thesis
    by (auto simp: grant_rods_def Let_def split: if_splits prod.splits)
qed

lemma grant_accessories_logs:
  assumes "grant_accessories w uid accs acc = (acc', w')"
    and "\<forall>it\<in>set accs. item_type it = ''accessory''"
  shows "gacha_records w' = gacha_records w \<and> bait_templates w' = bait_templates w
       \<and> (\<exists>new. snd acc' = snd acc @ new \<and> no_bait_rows new)"
proof -
  obtain g l where acc: "acc = (g, l)" by (cases acc)
  from accessory_results_logs[OF assms(2), of w uid g l] obtain new where
    new: "snd (accessory_results w uid accs (g, l)) = l @ new" "no_bait_rows new" by blast
  have e: "\<exists>new. snd acc = snd acc @ new \<and> no_bait_rows new"
    by (simp add: no_bait_rows_def)
  from assms(1) new acc e show ?thesis
    by (auto simp: grant_accessories_def Let_def split: if_splits prod.splits)
qed

lemma bait_fallback_records:
  "bait_fallback w uid baits = (r, w') \<Longrightarrow> gacha_records w' = gacha_records w"
  by (induction w uid baits rule: bait_fallback.induct)
     (auto split: if_splits sum.splits)

lemma grant_baits_logs:
  assumes "grant_baits w uid baits acc = (Inr acc', w')"
  shows "gacha_records w' = gacha_records w
       \<and> snd acc' = snd acc @ bait_logs (bait_templates w) uid baits"
proof -
  obtain g l where acc: "acc = (g, l)" by (cases acc)
  have e: "bait_logs (bait_templates w) uid [] = []" by (simp add: bait_logs_def)
  from assms acc e show ?thesis
    by (auto simp: grant_baits_def bait_results_logs
        split: if_splits sum.splits prod.splits option.splits dest: bait_fallback_records)
qed

lemma grant_coins_logs:
  assumes "grant_coins w uid c acc = (Inr acc', w')"
  shows "gacha_records w' = gacha_records w
       \<and> (\<exists>new. snd acc' = snd acc @ new \<and> no_bait_rows new)"
proof (cases "c > 0")
  case False
  with assms show ?thesis by (auto simp: grant_coins_def no_bait_rows_def)
next
  case True
  obtain g l where acc: "acc = (g, l)" by (cases acc)
  let ?r = "\<lparr>rec_record_id = 0, rec_user_id = uid, rec_gacha_pool_id = 0,
         rec_item_type = ''coins'', rec_item_id = 0, rec_item_name = CoinsName c,
         rec_quantity = c, rec_rarity = 1\<rparr>"
  have nb: "no_bait_rows [?r]" by (simp add: no_bait_rows_def)
  from assms True acc have "gacha_records w' = gacha_records w \<and> snd acc' = snd acc @ [?r]"
    by (auto simp: grant_coins_def create_log_record_def virtual_item_def user_repo_update_def
        split: option.splits)
  with nb show ?thesis by blast
qed

lemma grant_titles_logs:
  "grant_titles w uid ts (g, l) = (acc', w') \<Longrightarrow>
   gacha_records w' = gacha_records w \<and> (\<exists>new. snd acc' = l @ new \<and> no_bait_rows new)"
proof (induction ts arbitrary: w g l)
  case Nil
  then show ?case by (auto simp: no_bait_rows_def)
next
  case (Cons a ts)
  show ?case
  proof (cases "title_templates w a")
    case None
    with Cons show ?thesis by simp
  next
    case (Some t)
    let ?r = "\<lparr>rec_record_id = 0, rec_user_id = uid, rec_gacha_pool_id = 0,
         rec_item_type = ''titles'', rec_item_id = a, rec_item_name = Name (tt_name t),
         rec_quantity = 1, rec_rarity = 0\<rparr>"
    from Cons.prems Some have run: "grant_titles (grant_title_to_user w uid a) uid ts
        (g @ [TitleReward a (tt_name t)], l @ [?r]) = (acc', w')"
      by (simp add: create_log_record_def virtual_item_def)
    from Cons.IH[OF run] obtain new where
      new: "gacha_records w' = gacha_records (grant_title_to_user w uid a)"
        "snd acc' = (l @ [?r]) @ new" "no_bait_rows new" by blast
    have "gacha_records w' = gacha_records w"
      using new(1) by (simp add: grant_title_to_user_def)
    moreover have "snd acc' = l @ (?r # new)" using new(2) by simp
    moreover have "no_bait_rows (?r # new)" using new(3) by (simp add: no_bait_rows_def)
    ultimately show ?thesis by blast
  qed
qed

lemma write_log_records_records:
  "gacha_records (write_log_records w logs) = gacha_records w @ logs"
  by (induction logs arbitrary: w) (simp_all add: add_gacha_record_def)

text \<open>
  C4, as stated, fails. Bait 3 is drawn twice, two units and three units: one audit row
  is written, with quantity 5, beside the single update of the inventory by 5.
\<close>

theorem bait_draws_logged_as_one_row:
  "grant_rewards_batch world0 ''alice'' [worm2, worm3] =
    (Inr [BaitReward 3 ''worm'' 1 5],
     world0\<lparr>inv_db := empty_db\<lparr>user_bait_inventory :=
               [\<lparr>ubi_user_id = ''alice'', ubi_bait_id = 3, ubi_quantity = 5\<rparr>]\<rparr>,
            gacha_records := [bait_log_record ''alice'' 3 \<lparr>bt_name = ''worm'', bt_rarity = 1\<rparr> 5],
            trace := [EvAddGachaRecord (bait_log_record ''alice'' 3 \<lparr>bt_name = ''worm'', bt_rarity = 1\<rparr> 5),
                      EvUpdateBaits [(3, 5)]]\<rparr>)"
  by (simp add: world0_def empty_db_def worm2_def worm3_def grant_rewards_batch_def aggregate_def
      aggregate_step_def grant_rods_def grant_accessories_def grant_baits_def grant_coins_def
      batch_update_bait_quantities_def batch_bait_step_def bait_key_def
      create_log_record_def virtual_item_def add_gacha_record_def bait_log_record_def Let_def)

text \<open>
  C4, amended. For every list of draw outcomes that \<open>_grant_rewards_batch\<close> grants
  without an exception, the audit rows it appends for a bait template are those of the
  aggregated group: no row if the template is unknown or the summed quantity is not
  positive, and otherwise exactly one row, carrying the sum of the quantities of all
  the draws of that bait, in however many draws it appeared.
\<close>

theorem bait_audit_row_per_template:
  assumes "grant_rewards_batch w uid draws = (Inr rewards, w')"
  shows "\<exists>new. gacha_records w' = gacha_records w @ new
     \<and> filter (is_bait_row b) new =
         (case bait_templates w b of
            None \<Rightarrow> []
          | Some t \<Rightarrow> if 0 < bait_total b draws
                      then [bait_log_record uid b t (bait_total b draws)] else [])"
proof -
  let ?agg = "aggregate draws"
  obtain acc1 w1 where g1: "grant_rods w uid (agg_rods ?agg) ([], []) = (acc1, w1)"
    by (cases "grant_rods w uid (agg_rods ?agg) ([], [])")
  obtain acc2 w2 where g2: "grant_accessories w1 uid (agg_accessories ?agg) acc1 = (acc2, w2)"
    by (cases "grant_accessories w1 uid (agg_accessories ?agg) acc1")
  obtain r3 w3 where g3: "grant_baits w2 uid (agg_baits ?agg) acc2 = (r3, w3)"
    by (cases "grant_baits w2 uid (agg_baits ?agg) acc2")
  from assms g1 g2 g3 obtain acc3 where r3: "r3 = Inr acc3"
    by (cases r3) (auto simp: grant_rewards_batch_def Let_def)
  obtain r4 w4 where g4: "grant_coins w3 uid (agg_coins ?agg) acc3 = (r4, w4)"
    by (cases "grant_coins w3 uid (agg_coins ?agg) acc3")
  from assms g1 g2 g3 r3 g4 obtain acc4 where r4: "r4 = Inr acc4"
    by (cases r4) (auto simp: grant_rewards_batch_def Let_def)
  obtain g5 l5 w5 where g5: "grant_titles w4 uid (agg_titles ?agg) acc4 = ((g5, l5), w5)"
    by (cases "grant_titles w4 uid (agg_titles ?agg) acc4") auto
  from assms g1 g2 g3 r3 g4 r4 g5 have w': "w' = write_log_records w5 l5"
    by (simp add: grant_rewards_batch_def Let_def)
  from grant_rods_logs[OF g1 aggregate_rods_type] obtain n1 where
    s1: "gacha_records w1 = gacha_records w" "bait_templates w1 = bait_templates w"
        "snd acc1 = n1" "no_bait_rows n1" by auto
  from grant_accessories_logs[OF g2 aggregate_accessories_type] obtain n2 where
    s2: "gacha_records w2 = gacha_records w1" "bait_templates w2 = bait_templates w1"
        "snd acc2 = snd acc1 @ n2" "no_bait_rows n2" by auto
  from grant_baits_logs[OF g3[unfolded r3]] have
    s3: "gacha_records w3 = gacha_records w2"
        "snd acc3 = snd acc2 @ bait_logs (bait_templates w2) uid (agg_baits ?agg)" by auto
  from grant_coins_logs[OF g4[unfolded r4]] obtain n4 where
    s4: "gacha_records w4 = gacha_records w3" "snd acc4 = snd acc3 @ n4" "no_bait_rows n4" by auto
  obtain ga4 la4 where acc4: "acc4 = (ga4, la4)" by (cases acc4)
  from grant_titles_logs[OF g5[unfolded acc4]] obtain n5 where
    s5: "gacha_records w5 = gacha_records w4" "l5 = la4 @ n5" "no_bait_rows n5" by auto
  let ?bl = "bait_logs (bait_templates w) uid (agg_baits ?agg)"
  have l5: "l5 = n1 @ n2 @ ?bl @ n4 @ n5"
    using s1 s2 s3 s4 s5 acc4 by simp
  have recs: "gacha_records w' = gacha_records w @ l5"
    using w' s1 s2 s3 s4 s5 by (simp add: write_log_records_records)
  have "filter (is_bait_row b) l5 = filter (is_bait_row b) ?bl"
    unfolding l5 using s1(4) s2(4) s4(3) s5(3) by (simp add: no_bait_rows_filter)
  also have "\<dots> = (case bait_templates w b of
            None \<Rightarrow> []
          | Some t \<Rightarrow> if 0 < bait_total b draws
                      then [bait_log_record uid b t (bait_total b draws)] else [])"
    using bait_logs_filter[OF aggregate_baits_distinct, of b "bait_templates w" uid draws]
    unfolding aggregate_baits_lookup .
  finally show ?thesis using recs by blast
qed

theorem bait_audit_row_per_template_witness:
  "fst (grant_rewards_batch world0 ''alice'' [worm3, rod_item, worm2])
     = Inr [RodReward 7 ''rodA'' 4, BaitReward 3 ''worm'' 1 5]
   \<and> (\<exists>new. gacha_records (snd (grant_rewards_batch world0 ''alice'' [worm3, rod_item, worm2]))
               = gacha_records world0 @ new
         \<and> filter (is_bait_row 3) new
             = [bait_log_record ''alice'' 3 \<lparr>bt_name = ''worm'', bt_rarity = 1\<rparr> 5])"
proof -
  have f: "fst (grant_rewards_batch world0 ''alice'' [worm3, rod_item, worm2])
     = Inr [RodReward 7 ''rodA'' 4, BaitReward 3 ''worm'' 1 5]"
    by (simp add: world0_def empty_db_def worm2_def worm3_def rod_item_def
        grant_rewards_batch_def aggregate_def aggregate_step_def grant_rods_def
        grant_accessories_def grant_baits_def grant_coins_def batch_add_rod_instances_def
        batch_insert_rod_instances_def List.map_filter_def
        batch_update_bait_quantities_def create_log_record_def virtual_item_def Let_def
        split: prod.splits)
  have h: "grant_rewards_batch world0 ''alice'' [worm3, rod_item, worm2]
     = (Inr [RodReward 7 ''rodA'' 4, BaitReward 3 ''worm'' 1 5],
        snd (grant_rewards_batch world0 ''alice'' [worm3, rod_item, worm2]))"
    using f by (metis prod.collapse)
  have t: "bait_templates world0 3 = Some \<lparr>bt_name = ''worm'', bt_rarity = 1\<rparr>"
    by (simp add: world0_def)
  have q: "bait_total 3 [worm3, rod_item, worm2] = 5"
    by (simp add: bait_total_def worm2_def worm3_def rod_item_def)
  show ?thesis
    using f bait_audit_row_per_template [OF h, of 3] by (simp add: t q)
qed

section \<open>Empty batches\<close>

text \<open>
  C10. Called with an empty list, \<open>batch_add_rod_instances\<close> and
  \<open>batch_add_accessory_instances\<close> return the empty list and
  \<open>batch_update_bait_quantities\<close> returns normally, and each leaves the whole database
  as it was, also when the database would refuse the operation.
\<close>

theorem empty_batch_noop:
  "batch_add_rod_instances db uid [] = ([], db)
   \<and> batch_add_accessory_instances db uid [] = ([], db)
   \<and> batch_update_bait_quantities db uid [] = Inr db"
  by (simp add: batch_add_rod_instances_def batch_add_accessory_instances_def
      batch_update_bait_quantities_def)

end
